theory Spec2Isabelle
  imports Main
begin

text \<open>
  The front end of the roster site exists in three variants of one script.  The first is
  \<^verbatim>\<open>js/app.js\<close>: it fetches both documents on every load.  The second (names ending
  in \<open>_ttl\<close>) caches both documents under one session-storage key with a time to live
  of 90 seconds, aborts slow requests, installs the navigation helper with a delay of
  60 ms and has its own markup on the home and grade pages.  The third (names ending in
  \<open>_fc\<close>) caches each document under its own key without expiry and installs the
  navigation helper with a delay of 120 ms; its renderers are those of \<^verbatim>\<open>js/app.js\<close>
  word for word, so they are modelled once.  The aggregator and the lookups are the same
  in all three.
\<close>

section \<open>Data model\<close>

text \<open>
  The two JSON documents of the site.  A field that the code reads through
  \<^verbatim>\<open>x || []\<close> may be absent (or null): it is an \<open>option\<close>, \<open>None\<close> standing for
  every falsy reading.  Strings are the UTF-8 bytes of the text.
\<close>

record config =
  title :: string
  subtitle :: string
  managedBy :: string

record group =
  group_id :: string
  name :: string
  teacher :: string
  students :: "string list option"

record grade =
  key :: string
  label :: string
  groups :: "group list option"

record roster =
  grades :: "grade list option"

text \<open>\<^verbatim>\<open>xs || []\<close> on a sequence-valued field.\<close>

definition or_empty :: "'a list option \<Rightarrow> 'a list" where
  "or_empty v = (case v of None \<Rightarrow> [] | Some xs \<Rightarrow> xs)"

text \<open>\<^verbatim>\<open>Array.prototype.reduce(f, init)\<close>: a left fold from the initial value.\<close>

primrec reduce :: "('b \<Rightarrow> 'a \<Rightarrow> 'b) \<Rightarrow> 'b \<Rightarrow> 'a list \<Rightarrow> 'b" where
  "reduce f acc [] = acc"
| "reduce f acc (x # xs) = reduce f (f acc x) xs"

text \<open>\<^verbatim>\<open>Array.prototype.find(p) || null\<close>: the first element satisfying \<open>p\<close>.\<close>

primrec find_first :: "('a \<Rightarrow> bool) \<Rightarrow> 'a list \<Rightarrow> 'a option" where
  "find_first p [] = None"
| "find_first p (x # xs) = (if p x then Some x else find_first p xs)"

section \<open>Aggregator and lookup\<close>

definition sumStudentsInGrade :: "grade \<Rightarrow> nat" where
  "sumStudentsInGrade grade =
     reduce (\<lambda>acc grp. acc + length (or_empty (students grp))) 0 (or_empty (groups grade))"

definition sumAllStudents :: "roster \<Rightarrow> nat" where
  "sumAllStudents data =
     reduce (\<lambda>acc grade. acc + sumStudentsInGrade grade) 0 (or_empty (grades data))"

definition findGrade :: "roster \<Rightarrow> string \<Rightarrow> grade option" where
  "findGrade data gradeKey = find_first (\<lambda>g. key g = gradeKey) (or_empty (grades data))"

definition findGroup :: "grade \<Rightarrow> string \<Rightarrow> group option" where
  "findGroup grade groupId = find_first (\<lambda>gr. group_id gr = groupId) (or_empty (groups grade))"

section \<open>Text\<close>

text \<open>
  The Hebrew letters of the site's messages, as their UTF-8 bytes (U+05D0 to U+05EA, and
  the gershayim U+05F4).
\<close>

abbreviation heb_alef :: string where \<open>heb_alef \<equiv> [CHR 0xD7, CHR 0x90]\<close>
abbreviation heb_bet :: string where \<open>heb_bet \<equiv> [CHR 0xD7, CHR 0x91]\<close>
abbreviation heb_gimel :: string where \<open>heb_gimel \<equiv> [CHR 0xD7, CHR 0x92]\<close>
abbreviation heb_dalet :: string where \<open>heb_dalet \<equiv> [CHR 0xD7, CHR 0x93]\<close>
abbreviation heb_he :: string where \<open>heb_he \<equiv> [CHR 0xD7, CHR 0x94]\<close>
abbreviation heb_vav :: string where \<open>heb_vav \<equiv> [CHR 0xD7, CHR 0x95]\<close>
abbreviation heb_zayin :: string where \<open>heb_zayin \<equiv> [CHR 0xD7, CHR 0x96]\<close>
abbreviation heb_het :: string where \<open>heb_het \<equiv> [CHR 0xD7, CHR 0x97]\<close>
abbreviation heb_tet :: string where \<open>heb_tet \<equiv> [CHR 0xD7, CHR 0x98]\<close>
abbreviation heb_yod :: string where \<open>heb_yod \<equiv> [CHR 0xD7, CHR 0x99]\<close>
abbreviation heb_kaf_final :: string where \<open>heb_kaf_final \<equiv> [CHR 0xD7, CHR 0x9A]\<close>
abbreviation heb_kaf :: string where \<open>heb_kaf \<equiv> [CHR 0xD7, CHR 0x9B]\<close>
abbreviation heb_lamed :: string where \<open>heb_lamed \<equiv> [CHR 0xD7, CHR 0x9C]\<close>
abbreviation heb_mem_final :: string where \<open>heb_mem_final \<equiv> [CHR 0xD7, CHR 0x9D]\<close>
abbreviation heb_mem :: string where \<open>heb_mem \<equiv> [CHR 0xD7, CHR 0x9E]\<close>
abbreviation heb_nun_final :: string where \<open>heb_nun_final \<equiv> [CHR 0xD7, CHR 0x9F]\<close>
abbreviation heb_nun :: string where \<open>heb_nun \<equiv> [CHR 0xD7, CHR 0xA0]\<close>
abbreviation heb_samekh :: string where \<open>heb_samekh \<equiv> [CHR 0xD7, CHR 0xA1]\<close>
abbreviation heb_ayin :: string where \<open>heb_ayin \<equiv> [CHR 0xD7, CHR 0xA2]\<close>
abbreviation heb_pe_final :: string where \<open>heb_pe_final \<equiv> [CHR 0xD7, CHR 0xA3]\<close>
abbreviation heb_pe :: string where \<open>heb_pe \<equiv> [CHR 0xD7, CHR 0xA4]\<close>
abbreviation heb_tsadi_final :: string where \<open>heb_tsadi_final \<equiv> [CHR 0xD7, CHR 0xA5]\<close>
abbreviation heb_tsadi :: string where \<open>heb_tsadi \<equiv> [CHR 0xD7, CHR 0xA6]\<close>
abbreviation heb_qof :: string where \<open>heb_qof \<equiv> [CHR 0xD7, CHR 0xA7]\<close>
abbreviation heb_resh :: string where \<open>heb_resh \<equiv> [CHR 0xD7, CHR 0xA8]\<close>
abbreviation heb_shin :: string where \<open>heb_shin \<equiv> [CHR 0xD7, CHR 0xA9]\<close>
abbreviation heb_tav :: string where \<open>heb_tav \<equiv> [CHR 0xD7, CHR 0xAA]\<close>
abbreviation heb_gershayim :: string where \<open>heb_gershayim \<equiv> [CHR 0xD7, CHR 0xB4]\<close>

text \<open>The message of a failed grade lookup (``grade not found'').\<close>

definition msg_grade_not_found :: string where
  \<open>msg_grade_not_found =
     heb_shin @ heb_kaf @ heb_bet @ heb_he @ '' '' @ heb_lamed @ heb_alef @ '' '' @
     heb_nun @ heb_mem @ heb_tsadi @ heb_alef @ heb_he\<close>

text \<open>The message of a failed group lookup (``group not found'').\<close>

definition msg_group_not_found :: string where
  \<open>msg_group_not_found =
     heb_he @ heb_qof @ heb_bet @ heb_tsadi @ heb_he @ '' '' @ heb_lamed @ heb_alef @
     '' '' @ heb_nun @ heb_mem @ heb_tsadi @ heb_alef @ heb_he\<close>

text \<open>The label of a home entry whose grade is not in the roster (``grade'').\<close>

definition label_default :: string where
  \<open>label_default =
     heb_shin @ heb_kaf @ heb_bet @ heb_he\<close>

text \<open>Markup before the school total (``total students in the school'').\<close>

definition school_total_prefix :: string where
  \<open>school_total_prefix =
     heb_samekh @ heb_he @ heb_gershayim @ heb_kaf @ '' '' @ heb_tav @ heb_lamed @
     heb_mem @ heb_yod @ heb_dalet @ heb_yod @ heb_mem_final @ '' '' @ heb_bet @ heb_bet @
     heb_yod @ heb_tav @ '' '' @ heb_he @ heb_samekh @ heb_pe @ heb_resh @
     '': <span class="num">''\<close>

text \<open>Markup before the count of a home entry (``number of students in the grade'').\<close>

definition grade_count_prefix :: string where
  \<open>grade_count_prefix =
     heb_mem @ heb_samekh @ heb_pe @ heb_resh @ '' '' @ heb_tav @ heb_lamed @ heb_mem @
     heb_yod @ heb_dalet @ heb_yod @ heb_mem_final @ '' '' @ heb_bet @ heb_shin @ heb_kaf @
     heb_bet @ heb_he @ '': <span class="num">''\<close>

text \<open>Markup before the grade total (``total students in the grade'').\<close>

definition grade_total_prefix :: string where
  \<open>grade_total_prefix =
     heb_samekh @ heb_he @ heb_gershayim @ heb_kaf @ '' '' @ heb_tav @ heb_lamed @
     heb_mem @ heb_yod @ heb_dalet @ heb_yod @ heb_mem_final @ '' '' @ heb_bet @ heb_shin @
     heb_kaf @ heb_bet @ heb_he @ '': <span class="num">''\<close>

text \<open>Markup before the count of a group card (``students in the group'').\<close>

definition group_count_prefix :: string where
  \<open>group_count_prefix =
     heb_tav @ heb_lamed @ heb_mem @ heb_yod @ heb_dalet @ heb_yod @ heb_mem_final @
     '' '' @ heb_bet @ heb_he @ heb_qof @ heb_bet @ heb_tsadi @ heb_he @
     '': <span class="num">''\<close>

text \<open>Markup before the group total (``total students in the group'').\<close>

definition group_total_prefix :: string where
  \<open>group_total_prefix =
     heb_samekh @ heb_he @ heb_gershayim @ heb_kaf @ '' '' @ heb_tav @ heb_lamed @
     heb_mem @ heb_yod @ heb_dalet @ heb_yod @ heb_mem_final @ '' '' @ heb_bet @ heb_he @
     heb_qof @ heb_bet @ heb_tsadi @ heb_he @ '': <span class="num">''\<close>

text \<open>Markup opening a number.\<close>

definition span_open :: string where
  \<open>span_open =
     ''<span class="num">''\<close>

text \<open>Markup closing a number.\<close>

definition span_close :: string where
  \<open>span_close =
     ''</span>''\<close>

text \<open>
  Text after the school total in the time-to-live variant (``students study in the
  middle school'').
\<close>

definition school_learning_suffix :: string where
  \<open>school_learning_suffix =
     '' '' @ heb_tav @ heb_lamed @ heb_mem @ heb_yod @ heb_dalet @ heb_yod @
     heb_mem_final @ '' '' @ heb_lamed @ heb_vav @ heb_mem @ heb_dalet @ heb_yod @
     heb_mem_final @ '' '' @ heb_bet @ heb_het @ heb_tet @ heb_yod @ heb_bet @ heb_tav @
     '' '' @ heb_he @ heb_bet @ heb_yod @ heb_nun @ heb_yod @ heb_yod @ heb_mem_final\<close>

text \<open>
  Text after a home entry's count in the time-to-live variant (``students study in'',
  with the prefix letter attached).
\<close>

definition learning_in :: string where
  \<open>learning_in =
     '' '' @ heb_tav @ heb_lamed @ heb_mem @ heb_yod @ heb_dalet @ heb_yod @
     heb_mem_final @ '' '' @ heb_lamed @ heb_vav @ heb_mem @ heb_dalet @ heb_yod @
     heb_mem_final @ '' '' @ heb_bet\<close>

text \<open>
  Text after a count on the grade page of the time-to-live variant (``students
  study'').
\<close>

definition learning :: string where
  \<open>learning =
     '' '' @ heb_tav @ heb_lamed @ heb_mem @ heb_yod @ heb_dalet @ heb_yod @
     heb_mem_final @ '' '' @ heb_lamed @ heb_vav @ heb_mem @ heb_dalet @ heb_yod @
     heb_mem_final @ '' ''\<close>

text \<open>The group kind ``scientific''.\<close>

definition madait :: string where
  \<open>madait =
     heb_mem @ heb_dalet @ heb_ayin @ heb_yod @ heb_tav\<close>

text \<open>``scientific group''.\<close>

definition hakbatsa_madait :: string where
  \<open>hakbatsa_madait =
     heb_he @ heb_qof @ heb_bet @ heb_tsadi @ heb_he @ '' '' @ heb_mem @ heb_dalet @
     heb_ayin @ heb_yod @ heb_tav\<close>


text \<open>
  \<^verbatim>\<open>String(n)\<close> of a count: the digits of the tens, when there are any, and then the
  last digit.
\<close>

definition digit :: "nat \<Rightarrow> char" where
  "digit n = ''0123456789'' ! n"

function string_of_nat :: "nat \<Rightarrow> string" where
  "string_of_nat n =
     (if 10 \<le> n then string_of_nat (n div 10) else []) @ [digit (n mod 10)]"
  by pat_completeness auto
termination
  by (relation "measure (\<lambda>n. n)") auto

declare string_of_nat.simps [simp del]

text \<open>
  \<^verbatim>\<open>encodeURIComponent\<close>: the letters, the digits and \<^verbatim>\<open>- _ . ! ~ * ' ( )\<close> stay, every
  other byte of the UTF-8 text becomes \<^verbatim>\<open>%XX\<close>.
\<close>

definition unreserved :: "char \<Rightarrow> bool" where
  "unreserved c =
     (c \<in> set (''ABCDEFGHIJKLMNOPQRSTUVWXYZabcdefghijklmnopqrstuvwxyz0123456789-_.!~*()''
               @ [CHR 0x27]))"

definition hex_digit :: "nat \<Rightarrow> char" where
  "hex_digit n = ''0123456789ABCDEF'' ! n"

definition percent_byte :: "char \<Rightarrow> string" where
  "percent_byte c = [CHR ''%'', hex_digit (of_char c div 16), hex_digit (of_char c mod 16)]"

definition encodeURIComponent :: "string \<Rightarrow> string" where
  "encodeURIComponent s = concat (map (\<lambda>c. if unreserved c then [c] else percent_byte c) s)"

section \<open>The page\<close>

text \<open>
  What the renderers build: elements with a tag, a class name, attributes in the order
  they are set, and children; text nodes; and markup assigned through \<^verbatim>\<open>innerHTML\<close>,
  kept as the assigned string.
\<close>

datatype node =
    Text string
  | Html string
  | El string string "(string \<times> string) list" "node list"

text \<open>
  An element of the page that the code looks up by selector: its \<^verbatim>\<open>hidden\<close> flag, its
  \<^verbatim>\<open>href\<close> attribute and its children.
\<close>

record element =
  hidden :: bool
  href :: string
  children :: "node list"

text \<open>
  The document.  \<open>elements\<close> is \<^verbatim>\<open>document.querySelector\<close> on the selectors the code
  uses (\<open>None\<close> for null); the looked-up elements are distinct and none lies inside
  another.  \<open>data_grade\<close> is the \<^verbatim>\<open>data-grade\<close> attribute of the body, \<open>prefetch_links\<close>
  the \<^verbatim>\<open>href\<close>s of the prefetch links of the head in document order, and \<open>resolve\<close>
  what reading \<^verbatim>\<open>a.href\<close> makes of an assigned address.
\<close>

record document =
  elements :: "string \<Rightarrow> element option"
  data_grade :: string
  doc_title :: string
  prefetch_links :: "string list"
  resolve :: "string \<Rightarrow> string"

definition qs :: "document \<Rightarrow> string \<Rightarrow> element option" where
  "qs d sel = elements d sel"

definition put :: "string \<Rightarrow> element \<Rightarrow> document \<Rightarrow> document" where
  "put sel el d = d\<lparr>elements := (elements d)(sel := Some el)\<rparr>"

text \<open>Assigning \<^verbatim>\<open>textContent\<close> and \<^verbatim>\<open>innerHTML\<close>: the empty string leaves no child.\<close>

definition text_nodes :: "string \<Rightarrow> node list" where
  "text_nodes t = (if t = [] then [] else [Text t])"

definition html_nodes :: "string \<Rightarrow> node list" where
  "html_nodes s = (if s = [] then [] else [Html s])"

definition setGradeAccent :: "string \<Rightarrow> document \<Rightarrow> document" where
  "setGradeAccent gradeKey d = d\<lparr>data_grade := gradeKey\<rparr>"

text \<open>\<^verbatim>\<open>safeText(qs(sel), text)\<close>.\<close>

definition safeText :: "string \<Rightarrow> string \<Rightarrow> document \<Rightarrow> document" where
  "safeText sel text d =
     (case qs d sel of
        None \<Rightarrow> d
      | Some el \<Rightarrow> put sel (el\<lparr>children := text_nodes text\<rparr>) d)"

definition showError :: "string \<Rightarrow> document \<Rightarrow> document" where
  "showError message d =
     (case qs d ''#error'' of
        None \<Rightarrow> d
      | Some err \<Rightarrow> put ''#error'' (err\<lparr>hidden := False, children := text_nodes message\<rparr>) d)"

text \<open>\<^verbatim>\<open>el.innerHTML = markup\<close> and \<^verbatim>\<open>el.appendChild(n)\<close> on a looked-up element.\<close>

definition set_innerHTML :: "string \<Rightarrow> string \<Rightarrow> document \<Rightarrow> document" where
  "set_innerHTML sel markup d =
     (case qs d sel of
        None \<Rightarrow> d
      | Some el \<Rightarrow> put sel (el\<lparr>children := html_nodes markup\<rparr>) d)"

definition appendChild :: "string \<Rightarrow> node \<Rightarrow> document \<Rightarrow> document" where
  "appendChild sel n d =
     (case qs d sel of
        None \<Rightarrow> d
      | Some el \<Rightarrow> put sel (el\<lparr>children := children el @ [n]\<rparr>) d)"

text \<open>
  \<^verbatim>\<open>prefetch(urls)\<close>: a link is added for every address that is not empty and not
  among the links already there, also those added by this call.
\<close>

primrec prefetch_urls :: "string list \<Rightarrow> string list \<Rightarrow> string list" where
  "prefetch_urls [] links = links"
| "prefetch_urls (u # urls) links =
     (if u = [] \<or> u \<in> set links then prefetch_urls urls links
      else prefetch_urls urls (links @ [u]))"

definition prefetch :: "string list \<Rightarrow> document \<Rightarrow> document" where
  "prefetch urls d = d\<lparr>prefetch_links := prefetch_urls urls (prefetch_links d)\<rparr>"

text \<open>\<^verbatim>\<open>createEl(tag, className, text)\<close>; \<open>None\<close> is the omitted third argument.\<close>

definition createEl :: "string \<Rightarrow> string \<Rightarrow> string option \<Rightarrow> node" where
  "createEl tag className text =
     El tag className [] (case text of None \<Rightarrow> [] | Some t \<Rightarrow> text_nodes t)"

section \<open>View renderer (js/app.js)\<close>

definition gradeKeys :: "string list" where
  "gradeKeys = [''z'', ''h'', ''t'']"

definition grade_url :: "string \<Rightarrow> string" where
  "grade_url k = ''grade.html?g='' @ encodeURIComponent k"

definition group_url :: "string \<Rightarrow> string \<Rightarrow> string" where
  "group_url gradeKey groupId =
     ''group.html?g='' @ encodeURIComponent gradeKey @ ''&group='' @ encodeURIComponent groupId"

text \<open>The body of the loop of \<^verbatim>\<open>renderHome\<close>: the entry of one of the fixed keys.\<close>

definition home_entry :: "roster \<Rightarrow> string \<Rightarrow> node" where
  "home_entry data k =
     (let grade = findGrade data k;
          label = (case grade of None \<Rightarrow> label_default | Some g \<Rightarrow> label g);
          count = (case grade of None \<Rightarrow> 0 | Some g \<Rightarrow> sumStudentsInGrade g)
      in El ''a'' ''btn'' [(''href'', grade_url k)]
           [createEl ''div'' ''btn__title'' (Some label),
            El ''div'' ''btn__meta'' []
              (html_nodes (grade_count_prefix @ string_of_nat count @ span_close))])"

definition renderHome :: "config \<Rightarrow> roster \<Rightarrow> document \<Rightarrow> document" where
  "renderHome cfg data d0 =
     (let d1 = setGradeAccent [] d0;
          d2 = safeText ''#cfg-title'' (title cfg) d1;
          d3 = safeText ''#cfg-subtitle'' (subtitle cfg) d2;
          d4 = safeText ''#cfg-managed'' (managedBy cfg) d3
      in case qs d4 ''#grade-buttons'' of
           None \<Rightarrow> d4
         | Some container \<Rightarrow>
             (let d5 = set_innerHTML ''#grade-buttons'' [] d4;
                  totalSchool = sumAllStudents data;
                  d6 = set_innerHTML ''#school-total''
                         (school_total_prefix @ string_of_nat totalSchool @ span_close) d5;
                  d7 = prefetch (map grade_url gradeKeys) d6
              in reduce (\<lambda>d k. appendChild ''#grade-buttons'' (home_entry data k) d) d7
                   gradeKeys))"

text \<open>The body of the loop of \<^verbatim>\<open>renderGrade\<close>: the card of one group.\<close>

definition group_card :: "string \<Rightarrow> group \<Rightarrow> node" where
  "group_card gradeKey grp =
     El ''a'' ''groupCard'' [(''href'', group_url gradeKey (group_id grp))]
       [createEl ''p'' ''groupCard__name'' (Some (name grp)),
        createEl ''p'' ''groupCard__teacher'' (Some (teacher grp)),
        El ''p'' ''groupCard__count'' []
          (html_nodes (group_count_prefix
                       @ string_of_nat (length (or_empty (students grp))) @ span_close))]"

text \<open>
  The loop of \<^verbatim>\<open>renderGrade\<close> over the groups: the document and the addresses
  collected for prefetching.
\<close>

primrec grade_loop ::
  "string \<Rightarrow> group list \<Rightarrow> document \<times> string list \<Rightarrow> document \<times> string list" where
  "grade_loop gradeKey [] st = st"
| "grade_loop gradeKey (grp # grps) st =
     grade_loop gradeKey grps
       (appendChild ''#groups'' (group_card gradeKey grp) (fst st),
        snd st @ [resolve (fst st) (group_url gradeKey (group_id grp))])"

definition set_href :: "string \<Rightarrow> string \<Rightarrow> document \<Rightarrow> document" where
  "set_href sel url d =
     (case qs d sel of
        None \<Rightarrow> d
      | Some el \<Rightarrow> put sel (el\<lparr>href := url\<rparr>) d)"

definition renderGrade :: "config \<Rightarrow> roster \<Rightarrow> string \<Rightarrow> document \<Rightarrow> document" where
  "renderGrade cfg data gradeKey d0 =
     (let d1 = setGradeAccent gradeKey d0
      in case findGrade data gradeKey of
           None \<Rightarrow> showError msg_grade_not_found d1
         | Some grade \<Rightarrow>
             (let total = sumStudentsInGrade grade;
                  d2 = safeText ''#grade-title'' (label grade) d1;
                  d3 = set_innerHTML ''#grade-subtitle''
                         (grade_total_prefix @ string_of_nat total @ span_close) d2
              in case qs d3 ''#groups'' of
                   None \<Rightarrow> d3
                 | Some groups_el \<Rightarrow>
                     (let d4 = set_innerHTML ''#groups'' [] d3;
                          (d5, groupPrefetch) =
                             grade_loop gradeKey (or_empty (groups grade)) (d4, []);
                          d6 = prefetch groupPrefetch d5;
                          d7 = set_href ''#back'' ''index.html'' d6
                      in d7\<lparr>doc_title := title cfg\<rparr>)))"

text \<open>
  The loop of \<^verbatim>\<open>renderGroup\<close> over the indices of the students: row \<open>i\<close> has the
  number \<open>i + 1\<close> and the name at index \<open>i\<close>.
\<close>

definition student_row :: "string list \<Rightarrow> nat \<Rightarrow> node" where
  "student_row studs i =
     El ''tr'' [] []
       [createEl ''td'' ''rowNum'' (Some (string_of_nat (i + 1))),
        createEl ''td'' [] (Some (studs ! i))]"

function group_loop :: "string list \<Rightarrow> nat \<Rightarrow> document \<Rightarrow> document" where
  "group_loop studs i d =
     (if i < length studs
      then group_loop studs (i + 1) (appendChild ''#students'' (student_row studs i) d)
      else d)"
  by pat_completeness auto
termination
  by (relation "measure (\<lambda>(studs, i, d). length studs - i)") auto

declare group_loop.simps [simp del]

definition renderGroup ::
  "config \<Rightarrow> roster \<Rightarrow> string \<Rightarrow> string \<Rightarrow> document \<Rightarrow> document" where
  "renderGroup cfg data gradeKey groupId d0 =
     (let d1 = setGradeAccent gradeKey d0
      in case findGrade data gradeKey of
           None \<Rightarrow> showError msg_grade_not_found d1
         | Some grade \<Rightarrow>
             (case findGroup grade groupId of
                None \<Rightarrow> showError msg_group_not_found d1
              | Some grp \<Rightarrow>
                  (let d2 = safeText ''#group-title'' (name grp) d1;
                       d3 = safeText ''#group-subtitle'' (teacher grp) d2
                   in case qs d3 ''#students'' of
                        None \<Rightarrow> d3
                      | Some tbody \<Rightarrow>
                          (let d4 = set_innerHTML ''#students'' [] d3;
                               studs = or_empty (students grp);
                               d5 = group_loop studs 0 d4;
                               d6 = set_innerHTML ''#group-total''
                                      (group_total_prefix @ string_of_nat (length studs)
                                       @ span_close) d5;
                               d7 = set_href ''#back'' (grade_url gradeKey) d6
                           in d7\<lparr>doc_title := title cfg\<rparr>))))"

section \<open>View renderer (time-to-live variant)\<close>

text \<open>
  The renderers of the variant that caches both documents under one session key with a
  time to live.  They build their entries in a document fragment and append the fragment
  once; the home page has its own markup and marks every entry with its key.
\<close>

definition appendFragment :: "string \<Rightarrow> node list \<Rightarrow> document \<Rightarrow> document" where
  "appendFragment sel frag d =
     (case qs d sel of
        None \<Rightarrow> d
      | Some el \<Rightarrow> put sel (el\<lparr>children := children el @ frag\<rparr>) d)"

definition home_entry_ttl :: "roster \<Rightarrow> string \<Rightarrow> node" where
  "home_entry_ttl data k =
     (let grade = findGrade data k;
          label = (case grade of None \<Rightarrow> label_default | Some g \<Rightarrow> label g);
          count = (case grade of None \<Rightarrow> 0 | Some g \<Rightarrow> sumStudentsInGrade g)
      in El ''a'' ''btn'' [(''data-grade'', k), (''href'', grade_url k)]
           [createEl ''div'' ''btn__title'' (Some label),
            El ''div'' ''btn__meta'' []
              (html_nodes (span_open @ string_of_nat count @ span_close @ learning_in @ label))])"

definition renderHome_ttl :: "config \<Rightarrow> roster \<Rightarrow> document \<Rightarrow> document" where
  "renderHome_ttl cfg data d0 =
     (let d1 = setGradeAccent [] d0;
          d2 = safeText ''#cfg-title'' (title cfg) d1;
          d3 = safeText ''#cfg-subtitle'' (subtitle cfg) d2;
          d4 = safeText ''#cfg-managed'' (managedBy cfg) d3
      in case qs d4 ''#grade-buttons'' of
           None \<Rightarrow> d4
         | Some container \<Rightarrow>
             (let d5 = set_innerHTML ''#grade-buttons'' [] d4;
                  totalSchool = sumAllStudents data;
                  d6 = set_innerHTML ''#school-total''
                         (span_open @ string_of_nat totalSchool @ span_close
                          @ school_learning_suffix) d5;
                  d7 = prefetch (map grade_url gradeKeys) d6;
                  frag = reduce (\<lambda>frag k. frag @ [home_entry_ttl data k]) [] gradeKeys
              in appendFragment ''#grade-buttons'' frag d7))"

function group_rows :: "string list \<Rightarrow> nat \<Rightarrow> node list \<Rightarrow> node list" where
  "group_rows studs i frag =
     (if i < length studs
      then group_rows studs (i + 1) (frag @ [student_row studs i])
      else frag)"
  by pat_completeness auto
termination
  by (relation "measure (\<lambda>(studs, i, frag). length studs - i)") auto

declare group_rows.simps [simp del]

definition renderGroup_ttl ::
  "config \<Rightarrow> roster \<Rightarrow> string \<Rightarrow> string \<Rightarrow> document \<Rightarrow> document" where
  "renderGroup_ttl cfg data gradeKey groupId d0 =
     (let d1 = setGradeAccent gradeKey d0
      in case findGrade data gradeKey of
           None \<Rightarrow> showError msg_grade_not_found d1
         | Some grade \<Rightarrow>
             (case findGroup grade groupId of
                None \<Rightarrow> showError msg_group_not_found d1
              | Some grp \<Rightarrow>
                  (let d2 = safeText ''#group-title'' (name grp) d1;
                       d3 = safeText ''#group-subtitle'' (teacher grp) d2
                   in case qs d3 ''#students'' of
                        None \<Rightarrow> d3
                      | Some tbody \<Rightarrow>
                          (let d4 = set_innerHTML ''#students'' [] d3;
                               studs = or_empty (students grp);
                               frag = group_rows studs 0 [];
                               d5 = appendFragment ''#students'' frag d4;
                               d6 = set_innerHTML ''#group-total''
                                      (group_total_prefix @ string_of_nat (length studs)
                                       @ span_close) d5;
                               d7 = set_href ''#back'' (grade_url gradeKey) d6
                           in d7\<lparr>doc_title := title cfg\<rparr>))))"

section \<open>Labels on the grade page (time-to-live variant)\<close>

text \<open>
  The white space and line terminator characters that \<^verbatim>\<open>String.prototype.trim\<close> strips
  and \<^verbatim>\<open>\s\<close> matches, as UTF-8: U+0009 to U+000D, U+0020, U+00A0, U+1680, U+2000 to
  U+200A, U+2028, U+2029, U+202F, U+205F, U+3000 and U+FEFF.
\<close>

definition js_whitespace :: "string list" where
  "js_whitespace =
     [[CHR 0x09], [CHR 0x0A], [CHR 0x0B], [CHR 0x0C], [CHR 0x0D], [CHR 0x20],
      [CHR 0xC2, CHR 0xA0], [CHR 0xE1, CHR 0x9A, CHR 0x80],
      [CHR 0xE2, CHR 0x80, CHR 0x80], [CHR 0xE2, CHR 0x80, CHR 0x81],
      [CHR 0xE2, CHR 0x80, CHR 0x82], [CHR 0xE2, CHR 0x80, CHR 0x83],
      [CHR 0xE2, CHR 0x80, CHR 0x84], [CHR 0xE2, CHR 0x80, CHR 0x85],
      [CHR 0xE2, CHR 0x80, CHR 0x86], [CHR 0xE2, CHR 0x80, CHR 0x87],
      [CHR 0xE2, CHR 0x80, CHR 0x88], [CHR 0xE2, CHR 0x80, CHR 0x89],
      [CHR 0xE2, CHR 0x80, CHR 0x8A], [CHR 0xE2, CHR 0x80, CHR 0xA8],
      [CHR 0xE2, CHR 0x80, CHR 0xA9], [CHR 0xE2, CHR 0x80, CHR 0xAF],
      [CHR 0xE2, CHR 0x81, CHR 0x9F], [CHR 0xE3, CHR 0x80, CHR 0x80],
      [CHR 0xEF, CHR 0xBB, CHR 0xBF]]"

text \<open>The line terminators, which \<^verbatim>\<open>.\<close> does not match: U+000A, U+000D, U+2028, U+2029.\<close>

definition js_line_terminators :: "string list" where
  "js_line_terminators =
     [[CHR 0x0A], [CHR 0x0D], [CHR 0xE2, CHR 0x80, CHR 0xA8], [CHR 0xE2, CHR 0x80, CHR 0xA9]]"

definition starts_with :: "string \<Rightarrow> string \<Rightarrow> bool" where
  "starts_with s w = (take (length w) s = w)"

definition ends_with :: "string \<Rightarrow> string \<Rightarrow> bool" where
  "ends_with s w = (length w \<le> length s \<and> drop (length s - length w) s = w)"

function trimStart :: "string \<Rightarrow> string" where
  "trimStart s =
     (case find_first (starts_with s) js_whitespace of
        None \<Rightarrow> s
      | Some w \<Rightarrow> trimStart (drop (length w) s))"
  by pat_completeness auto
termination
proof (relation "measure length")
  show "wf (measure length)" by simp
next
  fix s w :: string
  assume found: "find_first (starts_with s) js_whitespace = Some w"
  have sound: "find_first p xs = Some x \<Longrightarrow> x \<in> set xs \<and> p x" for p and xs :: "string list" and x
    by (induction xs) (auto split: if_splits)
  from sound [OF found] have "w \<in> set js_whitespace" and "starts_with s w"
    by simp_all
  then have "w \<noteq> []" and "length w \<le> length s"
    by (auto simp: js_whitespace_def starts_with_def dest: arg_cong [where f = length])
  then show "(drop (length w) s, s) \<in> measure length"
    by (cases w) simp_all
qed

function trimEnd :: "string \<Rightarrow> string" where
  "trimEnd s =
     (case find_first (ends_with s) js_whitespace of
        None \<Rightarrow> s
      | Some w \<Rightarrow> trimEnd (take (length s - length w) s))"
  by pat_completeness auto
termination
proof (relation "measure length")
  show "wf (measure length)" by simp
next
  fix s w :: string
  assume found: "find_first (ends_with s) js_whitespace = Some w"
  have sound: "find_first p xs = Some x \<Longrightarrow> x \<in> set xs \<and> p x" for p and xs :: "string list" and x
    by (induction xs) (auto split: if_splits)
  from sound [OF found] have "w \<in> set js_whitespace" and "ends_with s w"
    by simp_all
  then have "w \<noteq> []" and "length w \<le> length s"
    by (auto simp: js_whitespace_def ends_with_def)
  then show "(take (length s - length w) s, s) \<in> measure length"
    by (cases w) simp_all
qed

declare trimStart.simps [simp del] trimEnd.simps [simp del]

definition trim :: "string \<Rightarrow> string" where
  "trim s = trimEnd (trimStart s)"

text \<open>No line terminator occurs in the text: \<^verbatim>\<open>.*\<close> can run to its end.\<close>

primrec dot_star_to_end :: "string \<Rightarrow> bool" where
  "dot_star_to_end [] = True"
| "dot_star_to_end (c # cs) =
     (find_first (starts_with (c # cs)) js_line_terminators = None \<and> dot_star_to_end cs)"

definition is_alnum :: "char \<Rightarrow> bool" where
  "is_alnum c = (c \<in> set ''ABCDEFGHIJKLMNOPQRSTUVWXYZabcdefghijklmnopqrstuvwxyz0123456789'')"

definition withBPrefix :: "string \<Rightarrow> string" where
  "withBPrefix lbl =
     (let s = trim lbl
      in if s = [] then []
         else if is_alnum (hd s) then heb_bet @ '' '' @ s
         else heb_bet @ s)"

text \<open>
  \<^verbatim>\<open>s.match(/^([...])\s+(.*)$/)\<close> for the three grade letters zayin, het, tet: the
  second capture when the text matches.  The greedy \<^verbatim>\<open>\s+\<close> takes the whole run of white
  space after the letter, which must not be empty; what follows must hold no line
  terminator.
\<close>

definition match_grade_letter :: "string \<Rightarrow> string option" where
  "match_grade_letter s =
     (if starts_with s heb_zayin \<or> starts_with s heb_het \<or> starts_with s heb_tet
      then (let r = drop 2 s; t = trimStart r
            in if length t < length r \<and> dot_star_to_end t then Some t else None)
      else None)"

definition normalizeGroupLabelForCount :: "string \<Rightarrow> string" where
  "normalizeGroupLabelForCount nm =
     (let s = trim nm
      in if s = [] then s
         else case match_grade_letter s of
                None \<Rightarrow> s
              | Some m2 \<Rightarrow>
                  (let rest = trim m2
                   in if rest = [] then s
                      else if rest = madait then hakbatsa_madait
                      else rest))"

definition group_card_ttl :: "string \<Rightarrow> group \<Rightarrow> node" where
  "group_card_ttl gradeKey grp =
     El ''a'' ''groupCard'' [(''href'', group_url gradeKey (group_id grp))]
       [createEl ''p'' ''groupCard__name'' (Some (name grp)),
        createEl ''p'' ''groupCard__teacher'' (Some (teacher grp)),
        El ''p'' ''groupCard__count'' []
          (html_nodes (span_open @ string_of_nat (length (or_empty (students grp)))
                       @ span_close @ learning
                       @ withBPrefix (normalizeGroupLabelForCount (name grp))))]"

text \<open>
  The loop of the grade renderer: the fragment and the addresses collected for
  prefetching.  The card is not yet in the document when its address is read.
\<close>

primrec grade_loop_ttl ::
  "document \<Rightarrow> string \<Rightarrow> group list \<Rightarrow> node list \<times> string list \<Rightarrow> node list \<times> string list"
  where
  "grade_loop_ttl d gradeKey [] st = st"
| "grade_loop_ttl d gradeKey (grp # grps) st =
     grade_loop_ttl d gradeKey grps
       (fst st @ [group_card_ttl gradeKey grp],
        snd st @ [resolve d (group_url gradeKey (group_id grp))])"

definition renderGrade_ttl :: "config \<Rightarrow> roster \<Rightarrow> string \<Rightarrow> document \<Rightarrow> document" where
  "renderGrade_ttl cfg data gradeKey d0 =
     (let d1 = setGradeAccent gradeKey d0
      in case findGrade data gradeKey of
           None \<Rightarrow> showError msg_grade_not_found d1
         | Some grade \<Rightarrow>
             (let total = sumStudentsInGrade grade;
                  d2 = safeText ''#grade-title'' (label grade) d1;
                  d3 = set_innerHTML ''#grade-subtitle''
                         (span_open @ string_of_nat total @ span_close @ learning
                          @ withBPrefix (label grade)) d2
              in case qs d3 ''#groups'' of
                   None \<Rightarrow> d3
                 | Some groups_el \<Rightarrow>
                     (let d4 = set_innerHTML ''#groups'' [] d3;
                          (frag, groupPrefetch) =
                             grade_loop_ttl d4 gradeKey (or_empty (groups grade)) ([], []);
                          d5 = appendFragment ''#groups'' frag d4;
                          d6 = prefetch groupPrefetch d5;
                          d7 = set_href ''#back'' ''index.html'' d6
                      in d7\<lparr>doc_title := title cfg\<rparr>)))"

text \<open>What a looked-up element holds after rendering.\<close>

definition children_at :: "document \<Rightarrow> string \<Rightarrow> node list option" where
  "children_at d sel = map_option children (qs d sel)"

section \<open>Data fetcher\<close>

text \<open>
  What a load can fail with: an \<^verbatim>\<open>Error\<close> thrown by the code with its message, the
  \<^verbatim>\<open>SyntaxError\<close> that \<^verbatim>\<open>Response.json()\<close> rejects with on a body that is not JSON, the
  rejection of \<^verbatim>\<open>fetch\<close> itself (network failure or abort), and the exception of an
  inaccessible or full session storage.
\<close>

datatype js_error = Error string | SyntaxError | Rejected | DOMException

text \<open>Parsed JSON.  Numbers are the integers; an object has each key once.\<close>

datatype json =
    JNull
  | JBool bool
  | JNum int
  | JStr string
  | JArr "json list"
  | JObj "(string \<times> json) list"

text \<open>
  A property read \<^verbatim>\<open>x.k\<close> on a value that is not null (\<open>None\<close> is \<^verbatim>\<open>undefined\<close>), the
  truth value of what was read, and \<^verbatim>\<open>typeof x.k === "number"\<close>.
\<close>

fun get_prop :: "json \<Rightarrow> string \<Rightarrow> json option" where
  "get_prop (JObj members) k = map_of members k"
| "get_prop v k = None"

fun truthy :: "json \<Rightarrow> bool" where
  "truthy JNull = False"
| "truthy (JBool b) = b"
| "truthy (JNum n) = (n \<noteq> 0)"
| "truthy (JStr s) = (s \<noteq> [])"
| "truthy (JArr xs) = True"
| "truthy (JObj members) = True"

fun number_of :: "json option \<Rightarrow> int option" where
  "number_of (Some (JNum n)) = Some n"
| "number_of v = None"

text \<open>
  A response: its \<^verbatim>\<open>ok\<close> flag, its status, and what \<^verbatim>\<open>json()\<close> makes of its body
  (\<open>None\<close> when the body does not parse).  The network answers a request with a
  response after so many milliseconds, or fails.
\<close>

record response =
  ok :: bool
  status :: nat
  body :: "json option"

datatype fetch_outcome = Fails | Responds nat response

record request =
  url :: string
  cache_mode :: string

definition CONFIG_URL :: string where
  "CONFIG_URL = ''data/config.json''"

definition DATA_URL :: string where
  "DATA_URL = ''data/data.json''"

definition fetch :: "(string \<Rightarrow> fetch_outcome) \<Rightarrow> string \<Rightarrow> js_error + response" where
  "fetch net u = (case net u of Fails \<Rightarrow> Inl Rejected | Responds t r \<Rightarrow> Inr r)"

text \<open>
  \<^verbatim>\<open>Promise.all\<close> of the two requests: both are issued, and the load goes on with both
  responses or fails with a rejection.
\<close>

definition promise_all :: "js_error + 'a \<Rightarrow> js_error + 'b \<Rightarrow> js_error + 'a \<times> 'b" where
  "promise_all p q =
     (case p of
        Inl e \<Rightarrow> Inl e
      | Inr x \<Rightarrow> (case q of Inl e \<Rightarrow> Inl e | Inr y \<Rightarrow> Inr (x, y)))"

definition res_json :: "response \<Rightarrow> js_error + json" where
  "res_json r = (case body r of None \<Rightarrow> Inl SyntaxError | Some v \<Rightarrow> Inr v)"

text \<open>
  \<^verbatim>\<open>loadAll\<close> of js/app.js: the result and the requests issued.
\<close>

definition loadAll :: "(string \<Rightarrow> fetch_outcome) \<Rightarrow> (js_error + json \<times> json) \<times> request list" where
  "loadAll net =
     (let requests = [\<lparr>url = CONFIG_URL, cache_mode = []\<rparr>, \<lparr>url = DATA_URL, cache_mode = []\<rparr>]
      in case promise_all (fetch net CONFIG_URL) (fetch net DATA_URL) of
           Inl e \<Rightarrow> (Inl e, requests)
         | Inr (cfgRes, dataRes) \<Rightarrow>
             if \<not> ok cfgRes \<or> \<not> ok dataRes then (Inl (Error ''fetch failed''), requests)
             else (case res_json cfgRes of
                     Inl e \<Rightarrow> (Inl e, requests)
                   | Inr cfg \<Rightarrow>
                       (case res_json dataRes of
                          Inl e \<Rightarrow> (Inl e, requests)
                        | Inr data \<Rightarrow> (Inr (cfg, data), requests))))"

subsection \<open>Session storage\<close>

text \<open>
  A stored string, by what \<^verbatim>\<open>JSON.parse\<close> makes of it.  The storage may be
  inaccessible (every access throws), and it accepts a write or throws.
\<close>

datatype item = Empty | Unparsable | Parsed json

record storage =
  accessible :: bool
  items :: "string \<Rightarrow> item option"
  accepts :: "string \<Rightarrow> json \<Rightarrow> bool"

definition getItem :: "storage \<Rightarrow> string \<Rightarrow> js_error + item option" where
  "getItem st k = (if accessible st then Inr (items st k) else Inl DOMException)"

text \<open>\<^verbatim>\<open>sessionStorage.setItem(k, JSON.stringify(v))\<close>.\<close>

definition setItem :: "storage \<Rightarrow> string \<Rightarrow> json \<Rightarrow> js_error + storage" where
  "setItem st k v =
     (if accessible st \<and> accepts st k v
      then Inr (st\<lparr>items := (items st)(k := Some (Parsed v))\<rparr>)
      else Inl DOMException)"

subsection \<open>The variant with one cache entry and a time to live\<close>

definition FETCH_TIMEOUT_MS :: nat where
  "FETCH_TIMEOUT_MS = 12000"

definition SESSION_CACHE_KEY :: string where
  "SESSION_CACHE_KEY = ''talmid_json_cache_v1''"

definition SESSION_CACHE_TTL_MS :: int where
  "SESSION_CACHE_TTL_MS = 90 * 1000"

definition SESSION_BUST_KEY :: string where
  "SESSION_BUST_KEY = ''talmid_bust_v1''"

definition SESSION_BUST_TTL_MS :: int where
  "SESSION_BUST_TTL_MS = 10 * 60 * 1000"

text \<open>Null (\<open>JNull\<close>) for a missing, empty or unparsable item and for a failed access.\<close>

definition readSessionJSON :: "storage \<Rightarrow> string \<Rightarrow> json" where
  "readSessionJSON st k =
     (case getItem st k of
        Inl e \<Rightarrow> JNull
      | Inr None \<Rightarrow> JNull
      | Inr (Some Empty) \<Rightarrow> JNull
      | Inr (Some Unparsable) \<Rightarrow> JNull
      | Inr (Some (Parsed v)) \<Rightarrow> v)"

definition writeSessionJSON :: "storage \<Rightarrow> string \<Rightarrow> json \<Rightarrow> storage" where
  "writeSessionJSON st k v = (case setItem st k v of Inl e \<Rightarrow> st | Inr st' \<Rightarrow> st')"

text \<open>
  \<^verbatim>\<open>getSessionBust()\<close> at the time \<open>now\<close> (\<^verbatim>\<open>Date.now()\<close>, which does not advance
  within the synchronous start of a load): the token and the storage afterwards.
\<close>

definition getSessionBust :: "int \<Rightarrow> storage \<Rightarrow> int \<times> storage" where
  "getSessionBust now st =
     (let cached = readSessionJSON st SESSION_BUST_KEY;
          fresh = (now, writeSessionJSON st SESSION_BUST_KEY
                          (JObj [(''v'', JNum now), (''ts'', JNum now)]))
      in if truthy cached then
           (case (number_of (get_prop cached ''v''), number_of (get_prop cached ''ts'')) of
              (Some v, Some ts) \<Rightarrow> if now - ts \<le> SESSION_BUST_TTL_MS then (v, st) else fresh
            | _ \<Rightarrow> fresh)
         else fresh)"

text \<open>The request is aborted when no response has come within the timeout.\<close>

definition fetchWithTimeout :: "(string \<Rightarrow> fetch_outcome) \<Rightarrow> string \<Rightarrow> js_error + response"
  where
  "fetchWithTimeout net u =
     (case net u of
        Fails \<Rightarrow> Inl Rejected
      | Responds t r \<Rightarrow> if t < FETCH_TIMEOUT_MS then Inr r else Inl Rejected)"

text \<open>\<^verbatim>\<open>String(n)\<close> of an integer.\<close>

definition string_of_int :: "int \<Rightarrow> string" where
  "string_of_int i =
     (if 0 \<le> i then string_of_nat (nat i) else CHR ''-'' # string_of_nat (nat (- i)))"

text \<open>
  The cached pair, when the entry passes the test of \<^verbatim>\<open>loadAll\<close>: it is truthy, its
  \<^verbatim>\<open>ts\<close> is a number, its \<^verbatim>\<open>cfg\<close> and \<^verbatim>\<open>data\<close> are truthy, and it is not older than
  the time to live.
\<close>

definition fresh_entry :: "int \<Rightarrow> json \<Rightarrow> (json \<times> json) option" where
  "fresh_entry now cached =
     (if truthy cached then
        (case (number_of (get_prop cached ''ts''), get_prop cached ''cfg'', get_prop cached ''data'') of
           (Some ts, Some cfg, Some data) \<Rightarrow>
             if truthy cfg \<and> truthy data \<and> now - ts \<le> SESSION_CACHE_TTL_MS
             then Some (cfg, data) else None
         | _ \<Rightarrow> None)
      else None)"

definition loadAll_ttl ::
  "int \<Rightarrow> (string \<Rightarrow> fetch_outcome) \<Rightarrow> storage \<Rightarrow> (js_error + json \<times> json) \<times> storage \<times> request list"
  where
  "loadAll_ttl now net st =
     (case fresh_entry now (readSessionJSON st SESSION_CACHE_KEY) of
        Some (cfg, data) \<Rightarrow> (Inr (cfg, data), st, [])
      | None \<Rightarrow>
          (let (v, st1) = getSessionBust now st;
               bust = ''?v='' @ string_of_int v;
               requests = [\<lparr>url = CONFIG_URL @ bust, cache_mode = ''no-cache''\<rparr>,
                           \<lparr>url = DATA_URL @ bust, cache_mode = ''no-cache''\<rparr>]
           in case promise_all (fetchWithTimeout net (CONFIG_URL @ bust))
                     (fetchWithTimeout net (DATA_URL @ bust)) of
                Inl e \<Rightarrow> (Inl e, st1, requests)
              | Inr (cfgRes, dataRes) \<Rightarrow>
                  if \<not> ok cfgRes then
                    (Inl (Error (''cfg fetch failed ('' @ string_of_nat (status cfgRes) @ '')'')),
                     st1, requests)
                  else if \<not> ok dataRes then
                    (Inl (Error (''data fetch failed ('' @ string_of_nat (status dataRes) @ '')'')),
                     st1, requests)
                  else (case res_json cfgRes of
                          Inl e \<Rightarrow> (Inl (Error ''cfg json parse failed''), st1, requests)
                        | Inr cfg \<Rightarrow>
                            (case res_json dataRes of
                               Inl e \<Rightarrow> (Inl (Error ''data json parse failed''), st1, requests)
                             | Inr data \<Rightarrow>
                                 (Inr (cfg, data),
                                  writeSessionJSON st1 SESSION_CACHE_KEY
                                    (JObj [(''ts'', JNum now), (''cfg'', cfg), (''data'', data)]),
                                  requests)))))"

subsection \<open>The variant with one cache entry per document\<close>

definition CACHE_CFG_KEY :: string where
  "CACHE_CFG_KEY = ''talmid__cfg__v1''"

definition CACHE_DATA_KEY :: string where
  "CACHE_DATA_KEY = ''talmid__data__v1''"

text \<open>A stored string is truthy when it is there and not empty.\<close>

fun present :: "item option \<Rightarrow> bool" where
  "present None = False"
| "present (Some Empty) = False"
| "present (Some v) = True"

text \<open>\<^verbatim>\<open>JSON.parse(raw)\<close> of a stored string that is there.\<close>

fun JSON_parse :: "item option \<Rightarrow> js_error + json" where
  "JSON_parse (Some (Parsed v)) = Inr v"
| "JSON_parse v = Inl SyntaxError"

text \<open>
  The first \<^verbatim>\<open>try\<close> block of \<^verbatim>\<open>loadAll\<close>: the cached pair when it returns one, \<open>None\<close>
  when it falls through to the network, also after a caught exception.
\<close>

definition cached_pair :: "storage \<Rightarrow> (json \<times> json) option" where
  "cached_pair st =
     (case getItem st CACHE_CFG_KEY of
        Inl e \<Rightarrow> None
      | Inr cachedCfg \<Rightarrow>
          (case getItem st CACHE_DATA_KEY of
             Inl e \<Rightarrow> None
           | Inr cachedData \<Rightarrow>
               if present cachedCfg \<and> present cachedData then
                 (case JSON_parse cachedCfg of
                    Inl e \<Rightarrow> None
                  | Inr cfg \<Rightarrow>
                      (case JSON_parse cachedData of
                         Inl e \<Rightarrow> None
                       | Inr data \<Rightarrow> Some (cfg, data)))
               else None))"

text \<open>The last \<^verbatim>\<open>try\<close> block: the second write is not reached when the first throws.\<close>

definition store_pair :: "storage \<Rightarrow> json \<Rightarrow> json \<Rightarrow> storage" where
  "store_pair st cfg data =
     (case setItem st CACHE_CFG_KEY cfg of
        Inl e \<Rightarrow> st
      | Inr st1 \<Rightarrow> (case setItem st1 CACHE_DATA_KEY data of Inl e \<Rightarrow> st1 | Inr st2 \<Rightarrow> st2))"

definition loadAll_fc ::
  "(string \<Rightarrow> fetch_outcome) \<Rightarrow> storage \<Rightarrow> (js_error + json \<times> json) \<times> storage \<times> request list"
  where
  "loadAll_fc net st =
     (case cached_pair st of
        Some (cfg, data) \<Rightarrow> (Inr (cfg, data), st, [])
      | None \<Rightarrow>
          (let requests = [\<lparr>url = CONFIG_URL, cache_mode = ''force-cache''\<rparr>,
                           \<lparr>url = DATA_URL, cache_mode = ''force-cache''\<rparr>]
           in case promise_all (fetch net CONFIG_URL) (fetch net DATA_URL) of
                Inl e \<Rightarrow> (Inl e, st, requests)
              | Inr (cfgRes, dataRes) \<Rightarrow>
                  if \<not> ok cfgRes \<or> \<not> ok dataRes then (Inl (Error ''fetch failed''), st, requests)
                  else (case res_json cfgRes of
                          Inl e \<Rightarrow> (Inl e, st, requests)
                        | Inr cfg \<Rightarrow>
                            (case res_json dataRes of
                               Inl e \<Rightarrow> (Inl e, st, requests)
                             | Inr data \<Rightarrow>
                                 (Inr (cfg, data), store_pair st cfg data, requests)))))"

section \<open>Navigation helper\<close>

text \<open>
  The anchor that \<^verbatim>\<open>closest("a[href]")\<close> finds from the target of a click: its
  \<^verbatim>\<open>target\<close>, whether it has the \<^verbatim>\<open>download\<close> attribute, and its \<^verbatim>\<open>href\<close> attribute.
\<close>

record anchor =
  a_target :: string
  a_download :: bool
  a_href :: string

record click =
  closest_anchor :: "anchor option"
  defaultPrevented :: bool
  button :: int
  metaKey :: bool
  ctrlKey :: bool
  shiftKey :: bool
  altKey :: bool

record parsed_url =
  origin :: string
  pathname :: string
  url_href :: string

text \<open>
  The window: the origin of its location, and \<^verbatim>\<open>new URL(href, window.location.href)\<close>,
  \<open>None\<close> when the constructor throws.
\<close>

record window =
  location_origin :: string
  new_URL :: "string \<Rightarrow> parsed_url option"

text \<open>
  What the listener does with a click: nothing, or it prevents the default action,
  marks the body as leaving and sets a timer that assigns the address to the location
  after the delay.
\<close>

datatype nav_action = PassThrough | Leave nat string

definition click_listener :: "nat \<Rightarrow> window \<Rightarrow> click \<Rightarrow> nav_action" where
  "click_listener delay w ev =
     (case closest_anchor ev of
        None \<Rightarrow> PassThrough
      | Some a \<Rightarrow>
          if defaultPrevented ev then PassThrough
          else if button ev \<noteq> 0 then PassThrough
          else if metaKey ev \<or> ctrlKey ev \<or> shiftKey ev \<or> altKey ev then PassThrough
          else if a_target a \<noteq> [] \<and> a_target a \<noteq> ''_self'' then PassThrough
          else if a_download a then PassThrough
          else if a_href a = [] \<or> starts_with (a_href a) ''#'' then PassThrough
          else (case new_URL w (a_href a) of
                  None \<Rightarrow> PassThrough
                | Some u \<Rightarrow>
                    if origin u \<noteq> location_origin w then PassThrough
                    else if \<not> ends_with (pathname u) ''.html'' then PassThrough
                    else Leave delay (url_href u)))"

text \<open>The listener that \<^verbatim>\<open>installFastNav\<close> installs, in the two variants that have it.\<close>

definition installFastNav_ttl :: "window \<Rightarrow> click \<Rightarrow> nav_action" where
  "installFastNav_ttl = click_listener 60"

definition installFastNav_fc :: "window \<Rightarrow> click \<Rightarrow> nav_action" where
  "installFastNav_fc = click_listener 120"

section \<open>Example inputs\<close>

text \<open>
  The scenario of the specification: grade \<open>z\<close> with the one group \<open>z_a\<close> of three
  students, and pages holding the elements that the renderers look up.
\<close>

definition blank :: element where
  "blank = \<lparr>hidden = False, href = [], children = []\<rparr>"

definition page_with :: "string list \<Rightarrow> document" where
  "page_with sels =
     \<lparr>elements = (\<lambda>s. if s \<in> set sels then Some blank else None),
      data_grade = [], doc_title = [], prefetch_links = [],
      resolve = (\<lambda>u. ''https://school.example/'' @ u)\<rparr>"

definition example_config :: config where
  "example_config = \<lparr>title = ''Talmid'', subtitle = ''Roster'', managedBy = ''Office''\<rparr>"

definition example_group :: group where
  \<open>example_group =
     \<lparr>group_id = ''z_a'',
      name = heb_zayin @ '' '' @ heb_he @ heb_qof @ heb_bet @ heb_tsadi @ heb_he @ '' '' @ heb_alef,
      teacher = heb_alef @ heb_yod @ heb_lamed @ heb_nun @ heb_yod @ heb_tav @ '' '' @ heb_resh @ heb_zayin,
      students = Some [heb_alef, heb_bet, heb_gimel]\<rparr>\<close>

definition example_grade :: grade where
  "example_grade = \<lparr>key = ''z'', label = heb_zayin, groups = Some [example_group]\<rparr>"

definition example_roster :: roster where
  "example_roster = \<lparr>grades = Some [example_grade]\<rparr>"

definition group_page :: document where
  "group_page = page_with [''#error'', ''#group-title'', ''#group-subtitle'', ''#students'',
                           ''#group-total'', ''#back'']"

text \<open>The grade page.\<close>

definition grade_page :: document where
  "grade_page = page_with [''#error'', ''#grade-title'', ''#grade-subtitle'', ''#groups'', ''#back'']"

text \<open>The home page.\<close>

definition home_page :: document where
  "home_page = page_with [''#error'', ''#cfg-title'', ''#cfg-subtitle'', ''#cfg-managed'',
                          ''#grade-buttons'', ''#school-total'']"

text \<open>The \<^verbatim>\<open>href\<close> attribute of a built entry.\<close>

fun entry_href :: "node \<Rightarrow> string option" where
  "entry_href (El tag cls attrs kids) = map_of attrs ''href''"
| "entry_href n = None"

text \<open>A roster whose groups have no students: an empty sequence and an absent one.\<close>

definition empty_roster :: roster where
  \<open>empty_roster =
     \<lparr>grades = Some
        [\<lparr>key = ''z'', label = heb_zayin,
          groups = Some
            [\<lparr>group_id = ''z_a'', name = heb_zayin @ '' '' @ heb_alef, teacher = heb_resh,
              students = Some []\<rparr>,
             \<lparr>group_id = ''z_b'', name = heb_zayin @ '' '' @ heb_bet, teacher = heb_shin,
              students = None\<rparr>]\<rparr>]\<rparr>\<close>

text \<open>A window of the site, which resolves one link of the site and one external link.\<close>

definition example_window :: window where
  "example_window =
     \<lparr>location_origin = ''https://school.example'',
      new_URL = (\<lambda>h.
        if h = ''grade.html?g=z''
        then Some \<lparr>origin = ''https://school.example'', pathname = ''/grade.html'',
                   url_href = ''https://school.example/grade.html?g=z''\<rparr>
        else if h = ''https://other.example/a.html''
        then Some \<lparr>origin = ''https://other.example'', pathname = ''/a.html'',
                   url_href = ''https://other.example/a.html''\<rparr>
        else None)\<rparr>"

text \<open>A plain primary-button click on an anchor with the given \<^verbatim>\<open>href\<close>.\<close>

definition plain_click :: "string \<Rightarrow> click" where
  "plain_click h =
     \<lparr>closest_anchor = Some \<lparr>a_target = [], a_download = False, a_href = h\<rparr>,
      defaultPrevented = False, button = 0,
      metaKey = False, ctrlKey = False, shiftKey = False, altKey = False\<rparr>"

text \<open>The two documents as parsed JSON, and a storage without items.\<close>

definition example_cfg_json :: json where
  "example_cfg_json =
     JObj [(''title'', JStr ''Talmid''), (''subtitle'', JStr ''Roster''),
           (''managedBy'', JStr ''Office'')]"

definition example_data_json :: json where
  "example_data_json =
     JObj [(''grades'', JArr [JObj [(''key'', JStr ''z''), (''label'', JStr ''Z''),
                                    (''groups'', JArr [])]])]"

definition empty_storage :: storage where
  "empty_storage = \<lparr>accessible = True, items = (\<lambda>k. None), accepts = (\<lambda>k v. True)\<rparr>"

text \<open>A storage holding the cache entry of the variant with a time to live.\<close>

definition ttl_storage :: "int \<Rightarrow> storage" where
  "ttl_storage ts =
     empty_storage\<lparr>items := (\<lambda>k.
        if k = SESSION_CACHE_KEY
        then Some (Parsed (JObj [(''ts'', JNum ts), (''cfg'', example_cfg_json),
                                 (''data'', example_data_json)]))
        else None)\<rparr>"

text \<open>A storage holding the two cache entries of the other variant.\<close>

definition fc_storage :: storage where
  "fc_storage =
     empty_storage\<lparr>items := (\<lambda>k.
        if k = CACHE_CFG_KEY then Some (Parsed example_cfg_json)
        else if k = CACHE_DATA_KEY then Some (Parsed example_data_json)
        else None)\<rparr>"

text \<open>
  A network that answers every request for the configuration with the first response
  and every other request with the second, each after 20 ms.
\<close>

definition example_net :: "response \<Rightarrow> response \<Rightarrow> string \<Rightarrow> fetch_outcome" where
  "example_net cfgRes dataRes u =
     (if starts_with u CONFIG_URL then Responds 20 cfgRes else Responds 20 dataRes)"

text \<open>Responses: a successful one with a document, a missing page, and a body that is not JSON.\<close>

definition response_ok :: "json \<Rightarrow> response" where
  "response_ok v = \<lparr>ok = True, status = 200, body = Some v\<rparr>"

definition response_404 :: response where
  "response_404 = \<lparr>ok = False, status = 404, body = None\<rparr>"

definition response_garbled :: response where
  "response_garbled = \<lparr>ok = True, status = 200, body = None\<rparr>"

definition good_net :: "string \<Rightarrow> fetch_outcome" where
  "good_net = example_net (response_ok example_cfg_json) (response_ok example_data_json)"

section \<open>Properties of the aggregator\<close>

lemma reduce_add: "reduce (\<lambda>acc x. acc + f x) (a::nat) xs = a + sum_list (map f xs)"
  by (induction xs arbitrary: a) simp_all

lemma find_first_None: "(find_first p xs = None) = (\<forall>x \<in> set xs. \<not> p x)"
  by (induction xs) simp_all

lemma find_first_Some: "find_first p xs = Some x \<Longrightarrow> x \<in> set xs \<and> p x"
  by (induction xs) (auto split: if_splits)

text \<open>
  Claim C1.  The grade size is the sum, over the groups of the grade, of the length of
  each group's students sequence; the school size is the sum of the grade sizes of all
  grades of the roster.
\<close>

theorem C1_sizes_are_sums:
  "sumStudentsInGrade G = (\<Sum>g\<leftarrow>or_empty (groups G). length (or_empty (students g)))
   \<and> sumAllStudents R = (\<Sum>G'\<leftarrow>or_empty (grades R). sumStudentsInGrade G')"
  by (simp add: sumStudentsInGrade_def sumAllStudents_def reduce_add)

section \<open>Properties of the page operations\<close>

lemma qs_put [simp]: "qs (put sel el d) s = (if s = sel then Some el else qs d s)"
  by (simp add: qs_def put_def)

lemma put_put [simp]: "put sel e2 (put sel e1 d) = put sel e2 d"
  by (simp add: put_def)

lemma string_of_nat_nonempty [simp]: "string_of_nat n \<noteq> []"
  by (subst string_of_nat.simps) simp

lemma qs_setGradeAccent [simp]: "qs (setGradeAccent k d) s = qs d s"
  by (simp add: qs_def setGradeAccent_def)

lemma qs_title [simp]: "qs (d\<lparr>doc_title := t\<rparr>) s = qs d s"
  by (simp add: qs_def)

lemma qs_prefetch [simp]: "qs (prefetch us d) s = qs d s"
  by (simp add: qs_def prefetch_def)

lemma qs_safeText:
  "qs (safeText sel t d) s =
     (if s = sel then map_option (\<lambda>el. el\<lparr>children := text_nodes t\<rparr>) (qs d sel) else qs d s)"
  by (simp add: safeText_def split: option.splits)

lemma qs_set_innerHTML:
  "qs (set_innerHTML sel m d) s =
     (if s = sel then map_option (\<lambda>el. el\<lparr>children := html_nodes m\<rparr>) (qs d sel) else qs d s)"
  by (simp add: set_innerHTML_def split: option.splits)

lemma qs_set_href:
  "qs (set_href sel u d) s =
     (if s = sel then map_option (\<lambda>el. el\<lparr>href := u\<rparr>) (qs d sel) else qs d s)"
  by (simp add: set_href_def split: option.splits)

lemma qs_appendChild:
  "qs (appendChild sel n d) s =
     (if s = sel then map_option (\<lambda>el. el\<lparr>children := children el @ [n]\<rparr>) (qs d sel) else qs d s)"
  by (simp add: appendChild_def split: option.splits)

lemma qs_appendFragment:
  "qs (appendFragment sel ns d) s =
     (if s = sel then map_option (\<lambda>el. el\<lparr>children := children el @ ns\<rparr>) (qs d sel) else qs d s)"
  by (simp add: appendFragment_def split: option.splits)

lemma qs_showError:
  "qs (showError m d) s =
     (if s = ''#error''
      then map_option (\<lambda>el. el\<lparr>hidden := False, children := text_nodes m\<rparr>) (qs d ''#error'')
      else qs d s)"
  by (simp add: showError_def split: option.splits)

lemmas qs_simps = qs_safeText qs_set_innerHTML qs_set_href qs_appendChild qs_appendFragment
  qs_showError

lemma group_loop_rows:
  "qs d ''#students'' = Some tb \<Longrightarrow>
   group_loop studs i d =
     put ''#students'' (tb\<lparr>children := children tb @ map (student_row studs) [i..<length studs]\<rparr>) d"
proof (induction studs i d arbitrary: tb rule: group_loop.induct)
  case (1 studs i d)
  show ?case
  proof (cases "i < length studs")
    case True
    let ?tb' = "tb\<lparr>children := children tb @ [student_row studs i]\<rparr>"
    let ?d' = "appendChild ''#students'' (student_row studs i) d"
    have d': "?d' = put ''#students'' ?tb' d"
      using "1.prems" by (simp add: appendChild_def)
    have up: "[i..<length studs] = i # [i + 1..<length studs]"
      using True by (simp add: upt_conv_Cons)
    have "group_loop studs i d = group_loop studs (i + 1) ?d'"
      using True by (subst group_loop.simps) simp
    also have "\<dots> = put ''#students''
        (?tb'\<lparr>children := children ?tb' @ map (student_row studs) [i + 1..<length studs]\<rparr>) ?d'"
      by (rule "1.IH" [OF True]) (simp add: d')
    finally show ?thesis
      by (simp add: d' up)
  next
    case False
    have "put ''#students'' (tb\<lparr>children := children tb\<rparr>) d = d"
      using "1.prems" by (simp add: put_def qs_def fun_upd_idem)
    with False show ?thesis
      by (subst group_loop.simps) simp
  qed
qed

lemma group_rows_eq:
  "group_rows studs i frag = frag @ map (student_row studs) [i..<length studs]"
proof (induction studs i frag rule: group_rows.induct)
  case (1 studs i frag)
  show ?case
  proof (cases "i < length studs")
    case True
    have up: "[i..<length studs] = i # [i + 1..<length studs]"
      using True by (simp add: upt_conv_Cons)
    show ?thesis
      using True "1.IH" by (subst group_rows.simps) (simp add: up)
  next
    case False
    then show ?thesis by (subst group_rows.simps) simp
  qed
qed

lemma rows_enumerate:
  "map (student_row studs) [0..<length studs] =
   map (\<lambda>(n, s). El ''tr'' [] [] [El ''td'' ''rowNum'' [] [Text (string_of_nat n)],
                                    El ''td'' [] [] (text_nodes s)])
       (enumerate 1 studs)"
  by (rule nth_equalityI) (simp_all add: student_row_def createEl_def text_nodes_def nth_enumerate_eq)

lemma group_total_markup [simp]: "html_nodes (group_total_prefix @ s) = [Html (group_total_prefix @ s)]"
  by (simp add: html_nodes_def group_total_prefix_def)

lemma html_nodes_empty [simp]: "html_nodes [] = []"
  by (simp add: html_nodes_def)

lemma renderGroup_students:
  assumes "findGrade data gradeKey = Some grade" and "findGroup grade groupId = Some grp"
    and "qs d ''#students'' = Some tbody"
  shows "children_at (renderGroup cfg data gradeKey groupId d) ''#students'' =
           Some (map (student_row (or_empty (students grp))) [0..<length (or_empty (students grp))])"
proof -
  let ?d3 = "safeText ''#group-subtitle'' (teacher grp)
               (safeText ''#group-title'' (name grp) (setGradeAccent gradeKey d))"
  let ?d4 = "set_innerHTML ''#students'' [] ?d3"
  have q3: "qs ?d3 ''#students'' = Some tbody"
    using assms(3) by (simp add: qs_simps)
  have q4: "qs ?d4 ''#students'' = Some (tbody\<lparr>children := []\<rparr>)"
    using q3 by (simp add: qs_simps)
  show ?thesis
    using assms(1,2) q3
    by (simp add: renderGroup_def Let_def children_at_def group_loop_rows [OF q4] qs_simps)
qed

lemma renderGroup_total:
  assumes "findGrade data gradeKey = Some grade" and "findGroup grade groupId = Some grp"
    and "qs d ''#students'' = Some tbody" and "qs d ''#group-total'' = Some tot"
  shows "children_at (renderGroup cfg data gradeKey groupId d) ''#group-total'' =
           Some [Html (group_total_prefix @ string_of_nat (length (or_empty (students grp))) @ span_close)]"
proof -
  let ?d3 = "safeText ''#group-subtitle'' (teacher grp)
               (safeText ''#group-title'' (name grp) (setGradeAccent gradeKey d))"
  let ?d4 = "set_innerHTML ''#students'' [] ?d3"
  have q3: "qs ?d3 ''#students'' = Some tbody"
    using assms(3) by (simp add: qs_simps)
  have q4: "qs ?d4 ''#students'' = Some (tbody\<lparr>children := []\<rparr>)"
    using q3 by (simp add: qs_simps)
  show ?thesis
    using assms(1,2,4) q3
    by (simp add: renderGroup_def Let_def children_at_def group_loop_rows [OF q4] qs_simps)
qed

lemma renderGroup_ttl_students:
  assumes "findGrade data gradeKey = Some grade" and "findGroup grade groupId = Some grp"
    and "qs d ''#students'' = Some tbody"
  shows "children_at (renderGroup_ttl cfg data gradeKey groupId d) ''#students'' =
           Some (map (student_row (or_empty (students grp))) [0..<length (or_empty (students grp))])"
  using assms
  by (simp add: renderGroup_ttl_def Let_def children_at_def group_rows_eq qs_simps)

lemma renderGroup_ttl_total:
  assumes "findGrade data gradeKey = Some grade" and "findGroup grade groupId = Some grp"
    and "qs d ''#students'' = Some tbody" and "qs d ''#group-total'' = Some tot"
  shows "children_at (renderGroup_ttl cfg data gradeKey groupId d) ''#group-total'' =
           Some [Html (group_total_prefix @ string_of_nat (length (or_empty (students grp))) @ span_close)]"
  using assms
  by (simp add: renderGroup_ttl_def Let_def children_at_def group_rows_eq qs_simps)

text \<open>
  Claim C2.  For a resolved grade and group, on a page that has the table body and the
  total element, the table holds one row per student, numbered from 1 in input order,
  and the total shows the length of the students sequence; both variants of the group
  renderer build the same table.  The scenario of the specification (grade \<open>z\<close>, group
  \<open>z_a\<close>, three students) is the witness: three rows numbered 1, 2, 3 and a total of 3.
\<close>

theorem C2_group_table:
  assumes "findGrade data gradeKey = Some grade" and "findGroup grade groupId = Some grp"
    and "qs d ''#students'' = Some tbody" and "qs d ''#group-total'' = Some tot"
  shows "children_at (renderGroup cfg data gradeKey groupId d) ''#students'' =
           Some (map (\<lambda>(n, s). El ''tr'' [] [] [El ''td'' ''rowNum'' [] [Text (string_of_nat n)],
                                                El ''td'' [] [] (text_nodes s)])
                     (enumerate 1 (or_empty (students grp))))
       \<and> children_at (renderGroup cfg data gradeKey groupId d) ''#group-total'' =
           Some [Html (group_total_prefix @ string_of_nat (length (or_empty (students grp)))
                       @ span_close)]
       \<and> children_at (renderGroup_ttl cfg data gradeKey groupId d) ''#students'' =
           children_at (renderGroup cfg data gradeKey groupId d) ''#students''
       \<and> children_at (renderGroup_ttl cfg data gradeKey groupId d) ''#group-total'' =
           children_at (renderGroup cfg data gradeKey groupId d) ''#group-total''"
  using renderGroup_students [OF assms(1,2,3)] renderGroup_total [OF assms]
    renderGroup_ttl_students [OF assms(1,2,3)] renderGroup_ttl_total [OF assms]
  by (simp only: rows_enumerate simp_thms)

theorem C2_group_table_witness:
  "findGrade example_roster ''z'' = Some example_grade
   \<and> findGroup example_grade ''z_a'' = Some example_group
   \<and> qs group_page ''#students'' = Some blank
   \<and> qs group_page ''#group-total'' = Some blank
   \<and> children_at (renderGroup example_config example_roster ''z'' ''z_a'' group_page) ''#students'' =
       Some [El ''tr'' [] [] [El ''td'' ''rowNum'' [] [Text ''1''], El ''td'' [] [] [Text heb_alef]],
             El ''tr'' [] [] [El ''td'' ''rowNum'' [] [Text ''2''], El ''td'' [] [] [Text heb_bet]],
             El ''tr'' [] [] [El ''td'' ''rowNum'' [] [Text ''3''], El ''td'' [] [] [Text heb_gimel]]]
   \<and> children_at (renderGroup example_config example_roster ''z'' ''z_a'' group_page) ''#group-total'' =
       Some [Html (group_total_prefix @ ''3'' @ span_close)]"
proof -
  have g: "findGrade example_roster ''z'' = Some example_grade"
    by (simp add: findGrade_def example_roster_def example_grade_def or_empty_def)
  have gr: "findGroup example_grade ''z_a'' = Some example_group"
    by (simp add: findGroup_def example_grade_def example_group_def or_empty_def)
  have s: "qs group_page ''#students'' = Some blank"
    by (simp add: qs_def group_page_def page_with_def)
  have t: "qs group_page ''#group-total'' = Some blank"
    by (simp add: qs_def group_page_def page_with_def)
  have n: "string_of_nat (Suc 0) = ''1''" "string_of_nat (Suc (Suc 0)) = ''2''"
    "string_of_nat (Suc (Suc (Suc 0))) = ''3''"
    by (simp_all add: string_of_nat.simps digit_def)
  show ?thesis
    using C2_group_table [OF g gr s t, of example_config] g gr s t
    by (simp add: example_group_def or_empty_def enumerate_eq_zip text_nodes_def n upt_rec)
qed

lemma findGrade_absent:
  "gradeKey \<notin> key ` set (or_empty (grades data)) \<Longrightarrow> findGrade data gradeKey = None"
  by (auto simp: findGrade_def find_first_None)

lemma findGroup_absent:
  "groupId \<notin> group_id ` set (or_empty (groups grade)) \<Longrightarrow> findGroup grade groupId = None"
  by (auto simp: findGroup_def find_first_None)

lemma text_nodes_msgs [simp]:
  "text_nodes msg_grade_not_found = [Text msg_grade_not_found]"
  "text_nodes msg_group_not_found = [Text msg_group_not_found]"
  by (simp_all add: text_nodes_def msg_grade_not_found_def msg_group_not_found_def)

lemma showError_fields [simp]:
  "doc_title (showError m d) = doc_title d"
  "prefetch_links (showError m d) = prefetch_links d"
  "data_grade (showError m d) = data_grade d"
  by (simp_all add: showError_def put_def split: option.splits)

lemma setGradeAccent_fields [simp]:
  "doc_title (setGradeAccent k d) = doc_title d"
  "prefetch_links (setGradeAccent k d) = prefetch_links d"
  "data_grade (setGradeAccent k d) = k"
  by (simp_all add: setGradeAccent_def)

text \<open>
  Claim C4.  For a grade key that no grade of the roster has, the grade renderer (in
  both variants) sets the accent, shows the ``grade not found'' message in the error
  element and stops: every other element, the groups region among them, the prefetch
  links and the document title are as before.
\<close>

theorem C4_grade_not_found:
  assumes "gradeKey \<notin> key ` set (or_empty (grades data))"
  shows "renderGrade cfg data gradeKey d =
           showError msg_grade_not_found (setGradeAccent gradeKey d)
       \<and> renderGrade_ttl cfg data gradeKey d =
           showError msg_grade_not_found (setGradeAccent gradeKey d)
       \<and> (qs d ''#error'' = Some err \<longrightarrow>
            qs (renderGrade cfg data gradeKey d) ''#error'' =
              Some (err\<lparr>hidden := False, children := [Text msg_grade_not_found]\<rparr>))
       \<and> (sel \<noteq> ''#error'' \<longrightarrow> qs (renderGrade cfg data gradeKey d) sel = qs d sel)
       \<and> qs (renderGrade cfg data gradeKey d) ''#groups'' = qs d ''#groups''
       \<and> prefetch_links (renderGrade cfg data gradeKey d) = prefetch_links d
       \<and> doc_title (renderGrade cfg data gradeKey d) = doc_title d"
proof -
  have a: "renderGrade cfg data gradeKey d =
             showError msg_grade_not_found (setGradeAccent gradeKey d)"
    using findGrade_absent [OF assms] by (simp add: renderGrade_def)
  have b: "renderGrade_ttl cfg data gradeKey d =
             showError msg_grade_not_found (setGradeAccent gradeKey d)"
    using findGrade_absent [OF assms] by (simp add: renderGrade_ttl_def)
  show ?thesis
    unfolding a b by (simp add: qs_showError)
qed

theorem C4_grade_not_found_witness:
  "''x'' \<notin> key ` set (or_empty (grades example_roster))
   \<and> qs grade_page ''#error'' = Some blank
   \<and> ''#groups'' \<noteq> ''#error''
   \<and> renderGrade example_config example_roster ''x'' grade_page =
        showError msg_grade_not_found (setGradeAccent ''x'' grade_page)
   \<and> qs (renderGrade example_config example_roster ''x'' grade_page) ''#error'' =
        Some (blank\<lparr>hidden := False, children := [Text msg_grade_not_found]\<rparr>)
   \<and> qs (renderGrade example_config example_roster ''x'' grade_page) ''#groups'' = Some blank"
proof -
  have k: "''x'' \<notin> key ` set (or_empty (grades example_roster))"
    by (simp add: example_roster_def example_grade_def or_empty_def)
  have e: "qs grade_page ''#error'' = Some blank"
    by (simp add: qs_def grade_page_def page_with_def)
  have g: "qs grade_page ''#groups'' = Some blank"
    by (simp add: qs_def grade_page_def page_with_def)
  show ?thesis
    using C4_grade_not_found [OF k, of example_config grade_page blank "''#groups''"] k e g
    by (simp add: qs_showError)
qed

lemma msgs_differ: "msg_group_not_found \<noteq> msg_grade_not_found"
  by (simp add: msg_group_not_found_def msg_grade_not_found_def)

text \<open>
  Claim C5.  When the grade key resolves to a grade and no group of that grade has the
  group id, the group renderer (in both variants) shows the ``group not found'' message,
  which differs from the ``grade not found'' message, and stops before the student table
  and the total are touched.  The grade is resolved first: a grade key that no grade has
  gives ``grade not found'' whatever the group id.
\<close>

theorem C5_group_not_found:
  assumes "findGrade data gradeKey = Some grade"
    and "groupId \<notin> group_id ` set (or_empty (groups grade))"
  shows "renderGroup cfg data gradeKey groupId d =
           showError msg_group_not_found (setGradeAccent gradeKey d)
       \<and> renderGroup_ttl cfg data gradeKey groupId d =
           showError msg_group_not_found (setGradeAccent gradeKey d)
       \<and> msg_group_not_found \<noteq> msg_grade_not_found
       \<and> (qs d ''#error'' = Some err \<longrightarrow>
            qs (renderGroup cfg data gradeKey groupId d) ''#error'' =
              Some (err\<lparr>hidden := False, children := [Text msg_group_not_found]\<rparr>))
       \<and> qs (renderGroup cfg data gradeKey groupId d) ''#students'' = qs d ''#students''
       \<and> qs (renderGroup cfg data gradeKey groupId d) ''#group-total'' = qs d ''#group-total''
       \<and> (k' \<notin> key ` set (or_empty (grades data)) \<longrightarrow>
            renderGroup cfg data k' groupId d =
              showError msg_grade_not_found (setGradeAccent k' d))"
proof -
  have c: "renderGroup cfg data k' groupId d =
             showError msg_grade_not_found (setGradeAccent k' d)"
    if "k' \<notin> key ` set (or_empty (grades data))"
    using findGrade_absent [OF that] by (simp add: renderGroup_def)
  have a: "renderGroup cfg data gradeKey groupId d =
             showError msg_group_not_found (setGradeAccent gradeKey d)"
    using assms(1) findGroup_absent [OF assms(2)] by (simp add: renderGroup_def)
  have b: "renderGroup_ttl cfg data gradeKey groupId d =
             showError msg_group_not_found (setGradeAccent gradeKey d)"
    using assms(1) findGroup_absent [OF assms(2)] by (simp add: renderGroup_ttl_def)
  show ?thesis
    unfolding a b using c by (simp add: qs_showError msgs_differ)
qed

theorem C5_group_not_found_witness:
  "findGrade example_roster ''z'' = Some example_grade
   \<and> ''z_b'' \<notin> group_id ` set (or_empty (groups example_grade))
   \<and> qs group_page ''#error'' = Some blank
   \<and> renderGroup example_config example_roster ''z'' ''z_b'' group_page =
        showError msg_group_not_found (setGradeAccent ''z'' group_page)
   \<and> qs (renderGroup example_config example_roster ''z'' ''z_b'' group_page) ''#error'' =
        Some (blank\<lparr>hidden := False, children := [Text msg_group_not_found]\<rparr>)
   \<and> qs (renderGroup example_config example_roster ''z'' ''z_b'' group_page) ''#students'' =
        Some blank
   \<and> ''y'' \<notin> key ` set (or_empty (grades example_roster))
   \<and> renderGroup example_config example_roster ''y'' ''z_b'' group_page =
        showError msg_grade_not_found (setGradeAccent ''y'' group_page)"
proof -
  have g: "findGrade example_roster ''z'' = Some example_grade"
    by (simp add: findGrade_def example_roster_def example_grade_def or_empty_def)
  have k: "''z_b'' \<notin> group_id ` set (or_empty (groups example_grade))"
    by (simp add: example_grade_def example_group_def or_empty_def)
  have e: "qs group_page ''#error'' = Some blank"
    by (simp add: qs_def group_page_def page_with_def)
  have s: "qs group_page ''#students'' = Some blank"
    by (simp add: qs_def group_page_def page_with_def)
  have y: "''y'' \<notin> key ` set (or_empty (grades example_roster))"
    by (simp add: example_roster_def example_grade_def or_empty_def)
  show ?thesis
    using C5_group_not_found [OF g k, of example_config group_page blank "''y''"] g k e s y
    by (simp add: qs_showError)
qed

lemma grade_urls [simp]:
  "grade_url ''z'' = ''grade.html?g=z''"
  "grade_url ''h'' = ''grade.html?g=h''"
  "grade_url ''t'' = ''grade.html?g=t''"
  by (simp_all add: grade_url_def encodeURIComponent_def unreserved_def)

lemma prefetch_fields [simp]:
  "doc_title (prefetch us d) = doc_title d"
  "prefetch_links (prefetch us d) = prefetch_urls us (prefetch_links d)"
  by (simp_all add: prefetch_def)

lemma put_fields [simp]:
  "doc_title (put sel el d) = doc_title d"
  "prefetch_links (put sel el d) = prefetch_links d"
  "data_grade (put sel el d) = data_grade d"
  "resolve (put sel el d) = resolve d"
  by (simp_all add: put_def)

lemma op_fields [simp]:
  "prefetch_links (safeText sel t d) = prefetch_links d"
  "prefetch_links (set_innerHTML sel m d) = prefetch_links d"
  "prefetch_links (appendChild sel n d) = prefetch_links d"
  "prefetch_links (appendFragment sel ns d) = prefetch_links d"
  "prefetch_links (set_href sel u d) = prefetch_links d"
  "resolve (safeText sel t d) = resolve d"
  "resolve (set_innerHTML sel m d) = resolve d"
  "resolve (appendChild sel n d) = resolve d"
  "resolve (setGradeAccent k d) = resolve d"
  by (simp_all add: safeText_def set_innerHTML_def appendChild_def appendFragment_def
        set_href_def setGradeAccent_def split: option.splits)

lemma prefetch_urls_set: "set (prefetch_urls us ls) = set ls \<union> (set us - {[]})"
  by (induction us arbitrary: ls) auto

lemma markup_nonempty [simp]:
  "html_nodes (grade_count_prefix @ s) = [Html (grade_count_prefix @ s)]"
  "html_nodes (school_total_prefix @ s) = [Html (school_total_prefix @ s)]"
  "html_nodes (grade_total_prefix @ s) = [Html (grade_total_prefix @ s)]"
  "html_nodes (group_count_prefix @ s) = [Html (group_count_prefix @ s)]"
  "html_nodes (span_open @ s) = [Html (span_open @ s)]"
  by (simp_all add: html_nodes_def grade_count_prefix_def school_total_prefix_def
        grade_total_prefix_def group_count_prefix_def span_open_def)

lemma renderHome_entries:
  assumes "qs d ''#grade-buttons'' = Some c"
  shows "children_at (renderHome cfg data d) ''#grade-buttons'' =
           Some (map (home_entry data) [''z'', ''h'', ''t''])"
  using assms
  by (simp add: renderHome_def Let_def children_at_def gradeKeys_def qs_simps)

lemma renderHome_ttl_entries:
  assumes "qs d ''#grade-buttons'' = Some c"
  shows "children_at (renderHome_ttl cfg data d) ''#grade-buttons'' =
           Some (map (home_entry_ttl data) [''z'', ''h'', ''t''])"
  using assms
  by (simp add: renderHome_ttl_def Let_def children_at_def gradeKeys_def qs_simps)

lemma renderHome_total:
  assumes "qs d ''#grade-buttons'' = Some c" and "qs d ''#school-total'' = Some st"
  shows "children_at (renderHome cfg data d) ''#school-total'' =
           Some [Html (school_total_prefix @ string_of_nat (sumAllStudents data) @ span_close)]"
  using assms
  by (simp add: renderHome_def Let_def children_at_def gradeKeys_def qs_simps)

lemma renderHome_ttl_total:
  assumes "qs d ''#grade-buttons'' = Some c" and "qs d ''#school-total'' = Some st"
  shows "children_at (renderHome_ttl cfg data d) ''#school-total'' =
           Some [Html (span_open @ string_of_nat (sumAllStudents data) @ span_close
                       @ school_learning_suffix)]"
  using assms
  by (simp add: renderHome_ttl_def Let_def children_at_def gradeKeys_def qs_simps)

lemma renderHome_prefetch:
  assumes "qs d ''#grade-buttons'' = Some c"
  shows "prefetch_links (renderHome cfg data d) =
           prefetch_urls [''grade.html?g=z'', ''grade.html?g=h'', ''grade.html?g=t'']
             (prefetch_links d)"
    and "prefetch_links (renderHome_ttl cfg data d) =
           prefetch_urls [''grade.html?g=z'', ''grade.html?g=h'', ''grade.html?g=t'']
             (prefetch_links d)"
  using assms
  by (simp_all add: renderHome_def renderHome_ttl_def Let_def gradeKeys_def qs_simps
        del: prefetch_urls.simps)

lemma home_entry_shape:
  "home_entry data k =
     El ''a'' ''btn'' [(''href'', grade_url k)]
       [El ''div'' ''btn__title'' []
          (text_nodes (case findGrade data k of None \<Rightarrow> label_default | Some g \<Rightarrow> label g)),
        El ''div'' ''btn__meta'' []
          [Html (grade_count_prefix
                 @ string_of_nat (case findGrade data k of None \<Rightarrow> 0
                                  | Some g \<Rightarrow> sumStudentsInGrade g)
                 @ span_close)]]"
  by (simp add: home_entry_def Let_def createEl_def)

lemma home_entry_ttl_shape:
  "home_entry_ttl data k =
     El ''a'' ''btn'' [(''data-grade'', k), (''href'', grade_url k)]
       [El ''div'' ''btn__title'' []
          (text_nodes (case findGrade data k of None \<Rightarrow> label_default | Some g \<Rightarrow> label g)),
        El ''div'' ''btn__meta'' []
          [Html (span_open
                 @ string_of_nat (case findGrade data k of None \<Rightarrow> 0
                                  | Some g \<Rightarrow> sumStudentsInGrade g)
                 @ span_close @ learning_in
                 @ (case findGrade data k of None \<Rightarrow> label_default | Some g \<Rightarrow> label g))]]"
  by (simp add: home_entry_ttl_def Let_def createEl_def)

text \<open>
  Claim C3, as amended.  On a page that has the entries container, the home renderer
  shows exactly three navigable entries, for the fixed keys \<open>z\<close>, \<open>h\<close>, \<open>t\<close> in this
  order, whatever grades the roster has: each links to the grade page of its key and
  shows the label and computed size of the roster's grade with that key, or the
  placeholder label and 0 when the roster has none.  The school total is the computed
  school size over all grades of the roster, and the three grade pages are among the
  prefetch links afterwards.  Both variants of the home renderer do so, each with its
  own markup.
\<close>

theorem C3_home_fixed_entries:
  assumes "qs d ''#grade-buttons'' = Some c"
  shows "children_at (renderHome cfg data d) ''#grade-buttons'' =
           Some (map (\<lambda>k. El ''a'' ''btn'' [(''href'', ''grade.html?g='' @ k)]
                       [El ''div'' ''btn__title'' []
                          (text_nodes (case findGrade data k of
                                         None \<Rightarrow> label_default | Some g \<Rightarrow> label g)),
                        El ''div'' ''btn__meta'' []
                          [Html (grade_count_prefix
                                 @ string_of_nat (case findGrade data k of
                                                    None \<Rightarrow> 0 | Some g \<Rightarrow> sumStudentsInGrade g)
                                 @ span_close)]])
                  [''z'', ''h'', ''t''])
       \<and> children_at (renderHome_ttl cfg data d) ''#grade-buttons'' =
           Some (map (\<lambda>k. El ''a'' ''btn'' [(''data-grade'', k), (''href'', ''grade.html?g='' @ k)]
                       [El ''div'' ''btn__title'' []
                          (text_nodes (case findGrade data k of
                                         None \<Rightarrow> label_default | Some g \<Rightarrow> label g)),
                        El ''div'' ''btn__meta'' []
                          [Html (span_open
                                 @ string_of_nat (case findGrade data k of
                                                    None \<Rightarrow> 0 | Some g \<Rightarrow> sumStudentsInGrade g)
                                 @ span_close @ learning_in
                                 @ (case findGrade data k of
                                      None \<Rightarrow> label_default | Some g \<Rightarrow> label g))]])
                  [''z'', ''h'', ''t''])
       \<and> (qs d ''#school-total'' = Some st \<longrightarrow>
            children_at (renderHome cfg data d) ''#school-total'' =
              Some [Html (school_total_prefix @ string_of_nat (sumAllStudents data)
                          @ span_close)]
            \<and> children_at (renderHome_ttl cfg data d) ''#school-total'' =
              Some [Html (span_open @ string_of_nat (sumAllStudents data) @ span_close
                          @ school_learning_suffix)])
       \<and> ''grade.html?g=z'' \<in> set (prefetch_links (renderHome cfg data d))
       \<and> ''grade.html?g=h'' \<in> set (prefetch_links (renderHome cfg data d))
       \<and> ''grade.html?g=t'' \<in> set (prefetch_links (renderHome cfg data d))
       \<and> prefetch_links (renderHome_ttl cfg data d) = prefetch_links (renderHome cfg data d)"
proof -
  have e: "children_at (renderHome cfg data d) ''#grade-buttons'' =
             Some (map (home_entry data) [''z'', ''h'', ''t''])"
    by (rule renderHome_entries [OF assms])
  have e': "children_at (renderHome_ttl cfg data d) ''#grade-buttons'' =
             Some (map (home_entry_ttl data) [''z'', ''h'', ''t''])"
    by (rule renderHome_ttl_entries [OF assms])
  have t: "children_at (renderHome cfg data d) ''#school-total'' =
             Some [Html (school_total_prefix @ string_of_nat (sumAllStudents data) @ span_close)]
         \<and> children_at (renderHome_ttl cfg data d) ''#school-total'' =
             Some [Html (span_open @ string_of_nat (sumAllStudents data) @ span_close
                         @ school_learning_suffix)]"
    if "qs d ''#school-total'' = Some st"
    using renderHome_total [OF assms that] renderHome_ttl_total [OF assms that] by simp
  have p: "set (prefetch_links (renderHome cfg data d)) =
             set (prefetch_links d) \<union> {''grade.html?g=z'', ''grade.html?g=h'', ''grade.html?g=t''}"
    by (simp add: renderHome_prefetch(1) [OF assms] prefetch_urls_set del: prefetch_urls.simps)
  have p': "prefetch_links (renderHome_ttl cfg data d) = prefetch_links (renderHome cfg data d)"
    by (simp only: renderHome_prefetch [OF assms])
  show ?thesis
    unfolding e e' p p' using t
    by (simp add: home_entry_shape home_entry_ttl_shape)
qed

theorem C3_home_fixed_entries_witness:
  "qs home_page ''#grade-buttons'' = Some blank
   \<and> qs home_page ''#school-total'' = Some blank
   \<and> map entry_href
        (or_empty (children_at (renderHome example_config example_roster home_page)
                     ''#grade-buttons'')) =
       [Some ''grade.html?g=z'', Some ''grade.html?g=h'', Some ''grade.html?g=t'']
   \<and> children_at (renderHome example_config example_roster home_page) ''#school-total'' =
       Some [Html (school_total_prefix @ ''3'' @ span_close)]
   \<and> prefetch_links (renderHome example_config example_roster home_page) =
       [''grade.html?g=z'', ''grade.html?g=h'', ''grade.html?g=t'']"
proof -
  have c: "qs home_page ''#grade-buttons'' = Some blank"
    by (simp add: qs_def home_page_def page_with_def)
  have s: "qs home_page ''#school-total'' = Some blank"
    by (simp add: qs_def home_page_def page_with_def)
  have n: "sumAllStudents example_roster = 3"
    by (simp add: sumAllStudents_def sumStudentsInGrade_def example_roster_def
          example_grade_def example_group_def or_empty_def)
  have three: "string_of_nat 3 = ''3''"
    by (simp add: string_of_nat.simps digit_def)
  have l: "prefetch_links (renderHome example_config example_roster home_page) =
             [''grade.html?g=z'', ''grade.html?g=h'', ''grade.html?g=t'']"
    by (simp add: renderHome_prefetch(1) [OF c]) (simp add: home_page_def page_with_def)
  show ?thesis
    using C3_home_fixed_entries [OF c, of example_config example_roster blank] c s l
    by (simp add: or_empty_def n three)
qed

text \<open>
  Claim C3 as stated, one entry per grade of the roster, fails on the roster of the
  specification's scenario: it has the one grade \<open>z\<close>, and the home page shows the three
  entries of \<open>z\<close>, \<open>h\<close> and \<open>t\<close>, so the addresses of the entries are not the addresses of
  the grades of the roster.
\<close>

theorem C3_entry_per_grade_counterexample:
  "map entry_href
     (or_empty (children_at (renderHome example_config example_roster home_page)
                  ''#grade-buttons'')) \<noteq>
   map (Some \<circ> grade_url \<circ> key) (or_empty (grades example_roster))
   \<and> map entry_href
     (or_empty (children_at (renderHome_ttl example_config example_roster home_page)
                  ''#grade-buttons'')) \<noteq>
   map (Some \<circ> grade_url \<circ> key) (or_empty (grades example_roster))"
proof -
  have c: "qs home_page ''#grade-buttons'' = Some blank"
    by (simp add: qs_def home_page_def page_with_def)
  show ?thesis
    by (simp add: renderHome_entries [OF c] renderHome_ttl_entries [OF c] or_empty_def
          home_entry_shape home_entry_ttl_shape example_roster_def)
qed

lemma grade_loop_eq:
  "qs d ''#groups'' = Some ge \<Longrightarrow>
   grade_loop k grps (d, acc) =
     (put ''#groups'' (ge\<lparr>children := children ge @ map (group_card k) grps\<rparr>) d,
      acc @ map (\<lambda>grp. resolve d (group_url k (group_id grp))) grps)"
proof (induction grps arbitrary: d ge acc)
  case Nil
  have "put ''#groups'' (ge\<lparr>children := children ge\<rparr>) d = d"
    using Nil by (simp add: put_def qs_def fun_upd_idem)
  then show ?case by simp
next
  case (Cons grp grps)
  let ?ge' = "ge\<lparr>children := children ge @ [group_card k grp]\<rparr>"
  have d': "appendChild ''#groups'' (group_card k grp) d = put ''#groups'' ?ge' d"
    using Cons.prems by (simp add: appendChild_def)
  have "qs (put ''#groups'' ?ge' d) ''#groups'' = Some ?ge'"
    by simp
  from Cons.IH [OF this] show ?case
    by (simp add: d')
qed

lemma grade_loop_ttl_eq:
  "grade_loop_ttl d k grps (frag, acc) =
     (frag @ map (group_card_ttl k) grps,
      acc @ map (\<lambda>grp. resolve d (group_url k (group_id grp))) grps)"
  by (induction grps arbitrary: frag acc) simp_all

lemma renderGrade_cards:
  assumes "findGrade data k = Some g" and "qs d ''#groups'' = Some ge"
  shows "children_at (renderGrade cfg data k d) ''#groups'' =
           Some (map (group_card k) (or_empty (groups g)))"
    and "doc_title (renderGrade cfg data k d) = title cfg"
proof -
  let ?d3 = "set_innerHTML ''#grade-subtitle''
               (grade_total_prefix @ string_of_nat (sumStudentsInGrade g) @ span_close)
               (safeText ''#grade-title'' (label g) (setGradeAccent k d))"
  have q3: "qs ?d3 ''#groups'' = Some ge"
    using assms(2) by (simp add: qs_simps)
  have q4: "qs (set_innerHTML ''#groups'' [] ?d3) ''#groups'' = Some (ge\<lparr>children := []\<rparr>)"
    using q3 by (simp add: qs_simps)
  show "children_at (renderGrade cfg data k d) ''#groups'' =
           Some (map (group_card k) (or_empty (groups g)))"
    using assms(1) q3
    by (simp add: renderGrade_def Let_def children_at_def grade_loop_eq [OF q4] qs_simps)
  show "doc_title (renderGrade cfg data k d) = title cfg"
    using assms(1) q3
    by (simp add: renderGrade_def Let_def grade_loop_eq [OF q4])
qed

lemma renderGrade_ttl_cards:
  assumes "findGrade data k = Some g" and "qs d ''#groups'' = Some ge"
  shows "children_at (renderGrade_ttl cfg data k d) ''#groups'' =
           Some (map (group_card_ttl k) (or_empty (groups g)))"
    and "doc_title (renderGrade_ttl cfg data k d) = title cfg"
  using assms
  by (simp_all add: renderGrade_ttl_def Let_def children_at_def grade_loop_ttl_eq qs_simps)

lemma renderGroup_title:
  assumes "findGrade data k = Some g" and "findGroup g i = Some grp"
    and "qs d ''#students'' = Some tb"
  shows "doc_title (renderGroup cfg data k i d) = title cfg"
    and "doc_title (renderGroup_ttl cfg data k i d) = title cfg"
  using assms
  by (simp_all add: renderGroup_def renderGroup_ttl_def Let_def qs_simps)

lemma empty_grade_size:
  assumes "\<forall>grp \<in> set (or_empty (groups g)). or_empty (students grp) = []"
  shows "sumStudentsInGrade g = 0"
  using assms by (simp add: sumStudentsInGrade_def reduce_add)

lemma empty_school_size:
  assumes "\<forall>g \<in> set (or_empty (grades data)).
             \<forall>grp \<in> set (or_empty (groups g)). or_empty (students grp) = []"
  shows "sumAllStudents data = 0"
  using assms by (simp add: sumAllStudents_def reduce_add empty_grade_size)

lemma findGrade_Some: "findGrade data k = Some g \<Longrightarrow> g \<in> set (or_empty (grades data)) \<and> key g = k"
  by (auto simp: findGrade_def dest: find_first_Some)

lemma findGroup_Some: "findGroup g i = Some grp \<Longrightarrow> grp \<in> set (or_empty (groups g)) \<and> group_id grp = i"
  by (auto simp: findGroup_def dest: find_first_Some)

lemma string_of_nat_0 [simp]: "string_of_nat 0 = ''0''"
  by (simp add: string_of_nat.simps digit_def)

text \<open>
  Claim C9.  When the students sequence of every group is empty, the school size and
  every grade size are 0, and the three renderers (in both variants) run to their end
  with zeros: the home page shows 0 in its total and in each of its entries, the grade
  page shows one card with the count 0 for every group and sets the document title,
  and the group page shows a table without rows and the total 0 and sets the document
  title.  No statement of the renderers can fail on such a roster: every sequence is
  read through a default, and the row loop reads no index at all.
\<close>

theorem C9_empty_students:
  assumes "\<forall>g \<in> set (or_empty (grades data)).
             \<forall>grp \<in> set (or_empty (groups g)). or_empty (students grp) = []"
  shows "sumAllStudents data = 0
       \<and> (g \<in> set (or_empty (grades data)) \<longrightarrow> sumStudentsInGrade g = 0)
       \<and> (qs d ''#grade-buttons'' = Some c \<and> qs d ''#school-total'' = Some st \<longrightarrow>
            children_at (renderHome cfg data d) ''#school-total'' =
              Some [Html (school_total_prefix @ ''0'' @ span_close)]
            \<and> children_at (renderHome_ttl cfg data d) ''#school-total'' =
              Some [Html (span_open @ ''0'' @ span_close @ school_learning_suffix)]
            \<and> children_at (renderHome cfg data d) ''#grade-buttons'' =
              Some (map (\<lambda>k. El ''a'' ''btn'' [(''href'', ''grade.html?g='' @ k)]
                          [El ''div'' ''btn__title'' []
                             (text_nodes (case findGrade data k of
                                            None \<Rightarrow> label_default | Some g \<Rightarrow> label g)),
                           El ''div'' ''btn__meta'' []
                             [Html (grade_count_prefix @ ''0'' @ span_close)]])
                     [''z'', ''h'', ''t''])
            \<and> children_at (renderHome_ttl cfg data d) ''#grade-buttons'' =
              Some (map (\<lambda>k. El ''a'' ''btn''
                          [(''data-grade'', k), (''href'', ''grade.html?g='' @ k)]
                          [El ''div'' ''btn__title'' []
                             (text_nodes (case findGrade data k of
                                            None \<Rightarrow> label_default | Some g \<Rightarrow> label g)),
                           El ''div'' ''btn__meta'' []
                             [Html (span_open @ ''0'' @ span_close @ learning_in
                                    @ (case findGrade data k of
                                         None \<Rightarrow> label_default | Some g \<Rightarrow> label g))]])
                     [''z'', ''h'', ''t'']))
       \<and> (findGrade data k = Some g' \<and> qs d ''#groups'' = Some ge \<longrightarrow>
            children_at (renderGrade cfg data k d) ''#groups'' =
              Some (map (\<lambda>grp. El ''a'' ''groupCard''
                          [(''href'', group_url k (group_id grp))]
                          [El ''p'' ''groupCard__name'' [] (text_nodes (name grp)),
                           El ''p'' ''groupCard__teacher'' [] (text_nodes (teacher grp)),
                           El ''p'' ''groupCard__count'' []
                             [Html (group_count_prefix @ ''0'' @ span_close)]])
                     (or_empty (groups g')))
            \<and> doc_title (renderGrade cfg data k d) = title cfg
            \<and> children_at (renderGrade_ttl cfg data k d) ''#groups'' =
              Some (map (\<lambda>grp. El ''a'' ''groupCard''
                          [(''href'', group_url k (group_id grp))]
                          [El ''p'' ''groupCard__name'' [] (text_nodes (name grp)),
                           El ''p'' ''groupCard__teacher'' [] (text_nodes (teacher grp)),
                           El ''p'' ''groupCard__count'' []
                             [Html (span_open @ ''0'' @ span_close @ learning
                                    @ withBPrefix (normalizeGroupLabelForCount (name grp)))]])
                     (or_empty (groups g')))
            \<and> doc_title (renderGrade_ttl cfg data k d) = title cfg)
       \<and> (findGrade data k = Some g' \<and> findGroup g' i = Some grp
            \<and> qs d ''#students'' = Some tb \<and> qs d ''#group-total'' = Some gt \<longrightarrow>
            children_at (renderGroup cfg data k i d) ''#students'' = Some []
            \<and> children_at (renderGroup cfg data k i d) ''#group-total'' =
              Some [Html (group_total_prefix @ ''0'' @ span_close)]
            \<and> doc_title (renderGroup cfg data k i d) = title cfg
            \<and> children_at (renderGroup_ttl cfg data k i d) ''#students'' = Some []
            \<and> children_at (renderGroup_ttl cfg data k i d) ''#group-total'' =
              Some [Html (group_total_prefix @ ''0'' @ span_close)]
            \<and> doc_title (renderGroup_ttl cfg data k i d) = title cfg)"
proof -
  have school: "sumAllStudents data = 0"
    by (rule empty_school_size [OF assms])
  have grade: "sumStudentsInGrade x = 0" if "x \<in> set (or_empty (grades data))" for x
    using assms that by (simp add: empty_grade_size)
  have count: "(case findGrade data x of None \<Rightarrow> 0 | Some g \<Rightarrow> sumStudentsInGrade g) = 0" for x
    using grade by (auto split: option.splits dest: findGrade_Some)
  have home: "children_at (renderHome cfg data d) ''#school-total'' =
              Some [Html (school_total_prefix @ ''0'' @ span_close)]
            \<and> children_at (renderHome_ttl cfg data d) ''#school-total'' =
              Some [Html (span_open @ ''0'' @ span_close @ school_learning_suffix)]
            \<and> children_at (renderHome cfg data d) ''#grade-buttons'' =
              Some (map (\<lambda>k. El ''a'' ''btn'' [(''href'', ''grade.html?g='' @ k)]
                          [El ''div'' ''btn__title'' []
                             (text_nodes (case findGrade data k of
                                            None \<Rightarrow> label_default | Some g \<Rightarrow> label g)),
                           El ''div'' ''btn__meta'' []
                             [Html (grade_count_prefix @ ''0'' @ span_close)]])
                     [''z'', ''h'', ''t''])
            \<and> children_at (renderHome_ttl cfg data d) ''#grade-buttons'' =
              Some (map (\<lambda>k. El ''a'' ''btn''
                          [(''data-grade'', k), (''href'', ''grade.html?g='' @ k)]
                          [El ''div'' ''btn__title'' []
                             (text_nodes (case findGrade data k of
                                            None \<Rightarrow> label_default | Some g \<Rightarrow> label g)),
                           El ''div'' ''btn__meta'' []
                             [Html (span_open @ ''0'' @ span_close @ learning_in
                                    @ (case findGrade data k of
                                         None \<Rightarrow> label_default | Some g \<Rightarrow> label g))]])
                     [''z'', ''h'', ''t''])"
    if c: "qs d ''#grade-buttons'' = Some c" and st: "qs d ''#school-total'' = Some st"
    using renderHome_total [OF c st, of cfg data] renderHome_ttl_total [OF c st, of cfg data]
      renderHome_entries [OF c, of cfg data] renderHome_ttl_entries [OF c, of cfg data]
    by (simp add: school home_entry_shape home_entry_ttl_shape count)
  have gradep: "children_at (renderGrade cfg data k d) ''#groups'' =
              Some (map (\<lambda>grp. El ''a'' ''groupCard''
                          [(''href'', group_url k (group_id grp))]
                          [El ''p'' ''groupCard__name'' [] (text_nodes (name grp)),
                           El ''p'' ''groupCard__teacher'' [] (text_nodes (teacher grp)),
                           El ''p'' ''groupCard__count'' []
                             [Html (group_count_prefix @ ''0'' @ span_close)]])
                     (or_empty (groups g')))
            \<and> doc_title (renderGrade cfg data k d) = title cfg
            \<and> children_at (renderGrade_ttl cfg data k d) ''#groups'' =
              Some (map (\<lambda>grp. El ''a'' ''groupCard''
                          [(''href'', group_url k (group_id grp))]
                          [El ''p'' ''groupCard__name'' [] (text_nodes (name grp)),
                           El ''p'' ''groupCard__teacher'' [] (text_nodes (teacher grp)),
                           El ''p'' ''groupCard__count'' []
                             [Html (span_open @ ''0'' @ span_close @ learning
                                    @ withBPrefix (normalizeGroupLabelForCount (name grp)))]])
                     (or_empty (groups g')))
            \<and> doc_title (renderGrade_ttl cfg data k d) = title cfg"
    if f: "findGrade data k = Some g'" and q: "qs d ''#groups'' = Some ge"
  proof -
    have "g' \<in> set (or_empty (grades data))"
      using findGrade_Some [OF f] by simp
    with assms have z: "\<forall>grp \<in> set (or_empty (groups g')). length (or_empty (students grp)) = 0"
      by simp
    show ?thesis
      using z
      by (simp add: renderGrade_cards [OF f q] renderGrade_ttl_cards [OF f q]
            group_card_def group_card_ttl_def createEl_def)
  qed
  have groupp: "children_at (renderGroup cfg data k i d) ''#students'' = Some []
            \<and> children_at (renderGroup cfg data k i d) ''#group-total'' =
              Some [Html (group_total_prefix @ ''0'' @ span_close)]
            \<and> doc_title (renderGroup cfg data k i d) = title cfg
            \<and> children_at (renderGroup_ttl cfg data k i d) ''#students'' = Some []
            \<and> children_at (renderGroup_ttl cfg data k i d) ''#group-total'' =
              Some [Html (group_total_prefix @ ''0'' @ span_close)]
            \<and> doc_title (renderGroup_ttl cfg data k i d) = title cfg"
    if f: "findGrade data k = Some g'" and f': "findGroup g' i = Some grp"
      and q: "qs d ''#students'' = Some tb" and q': "qs d ''#group-total'' = Some gt"
  proof -
    have "g' \<in> set (or_empty (grades data))" and "grp \<in> set (or_empty (groups g'))"
      using findGrade_Some [OF f] findGroup_Some [OF f'] by simp_all
    with assms have z: "or_empty (students grp) = []"
      by simp
    show ?thesis
      using renderGroup_students [OF f f' q, of cfg] renderGroup_total [OF f f' q q', of cfg]
        renderGroup_ttl_students [OF f f' q, of cfg]
        renderGroup_ttl_total [OF f f' q q', of cfg]
      by (simp add: z renderGroup_title [OF f f' q])
  qed
  show ?thesis
    using school grade home gradep groupp by blast
qed

theorem C9_empty_students_witness:
  "sumAllStudents empty_roster = 0
   \<and> qs home_page ''#grade-buttons'' = Some blank \<and> qs home_page ''#school-total'' = Some blank
   \<and> children_at (renderHome example_config empty_roster home_page) ''#school-total'' =
       Some [Html (school_total_prefix @ ''0'' @ span_close)]
   \<and> findGrade empty_roster ''z'' = Some (hd (or_empty (grades empty_roster)))
   \<and> qs grade_page ''#groups'' = Some blank
   \<and> map_option length (children_at (renderGrade example_config empty_roster ''z'' grade_page)
                           ''#groups'') = Some 2
   \<and> doc_title (renderGrade example_config empty_roster ''z'' grade_page) = ''Talmid''
   \<and> findGroup (hd (or_empty (grades empty_roster))) ''z_b'' =
       Some (last (or_empty (groups (hd (or_empty (grades empty_roster))))))
   \<and> qs group_page ''#students'' = Some blank \<and> qs group_page ''#group-total'' = Some blank
   \<and> children_at (renderGroup example_config empty_roster ''z'' ''z_b'' group_page)
        ''#students'' = Some []
   \<and> children_at (renderGroup example_config empty_roster ''z'' ''z_b'' group_page)
        ''#group-total'' = Some [Html (group_total_prefix @ ''0'' @ span_close)]
   \<and> doc_title (renderGroup example_config empty_roster ''z'' ''z_b'' group_page) = ''Talmid''"
proof -
  let ?g = "hd (or_empty (grades empty_roster))"
  let ?grp = "last (or_empty (groups ?g))"
  have a: "\<forall>g \<in> set (or_empty (grades empty_roster)).
             \<forall>grp \<in> set (or_empty (groups g)). or_empty (students grp) = []"
    by (simp add: empty_roster_def or_empty_def)
  have hc: "qs home_page ''#grade-buttons'' = Some blank"
    and hs: "qs home_page ''#school-total'' = Some blank"
    by (simp_all add: qs_def home_page_def page_with_def)
  have fg: "findGrade empty_roster ''z'' = Some ?g"
    by (simp add: findGrade_def empty_roster_def or_empty_def)
  have gg: "qs grade_page ''#groups'' = Some blank"
    by (simp add: qs_def grade_page_def page_with_def)
  have fgr: "findGroup ?g ''z_b'' = Some ?grp"
    by (simp add: findGroup_def empty_roster_def or_empty_def)
  have ps: "qs group_page ''#students'' = Some blank"
    and pt: "qs group_page ''#group-total'' = Some blank"
    by (simp_all add: qs_def group_page_def page_with_def)
  have two: "length (or_empty (groups ?g)) = 2"
    by (simp add: empty_roster_def or_empty_def)
  have t: "title example_config = ''Talmid''"
    by (simp add: example_config_def)
  note home = C9_empty_students [OF a, where g = ?g and d = home_page and c = blank
      and st = blank and cfg = example_config and k = "''z''" and g' = ?g and ge = blank
      and i = "''z_b''" and grp = ?grp and tb = blank and gt = blank]
  note grade = C9_empty_students [OF a, where g = ?g and d = grade_page and c = blank
      and st = blank and cfg = example_config and k = "''z''" and g' = ?g and ge = blank
      and i = "''z_b''" and grp = ?grp and tb = blank and gt = blank]
  note grp = C9_empty_students [OF a, where g = ?g and d = group_page and c = blank
      and st = blank and cfg = example_config and k = "''z''" and g' = ?g and ge = blank
      and i = "''z_b''" and grp = ?grp and tb = blank and gt = blank]
  show ?thesis
    using home grade grp hc hs fg gg fgr ps pt
    by (simp add: two t)
qed

lemma sum_missing_students:
  "(\<Sum>x\<leftarrow>map (\<lambda>x. x\<lparr>students := None\<rparr>) gs. length (or_empty (students x))) = 0"
  by (induction gs) (simp_all add: or_empty_def)

text \<open>
  Claim C10.  The aggregation and lookup functions are total on objects whose
  structural fields are absent.  A grade without \<open>groups\<close> has the size 0, a roster
  without \<open>grades\<close> has the size 0, a grade whose groups all lack \<open>students\<close> has the
  size 0, and an absent \<open>students\<close> or \<open>groups\<close> field counts exactly as an empty
  sequence does.  The lookups return null (\<open>None\<close>) on an absent sequence, and otherwise
  exactly when no element has the key or the id.
\<close>

theorem C10_missing_fields:
  "sumStudentsInGrade (g\<lparr>groups := None\<rparr>) = 0
   \<and> sumAllStudents (r\<lparr>grades := None\<rparr>) = 0
   \<and> sumStudentsInGrade (g\<lparr>groups := Some (map (\<lambda>x. x\<lparr>students := None\<rparr>) gs)\<rparr>) = 0
   \<and> sumStudentsInGrade (g\<lparr>groups := Some (gs @ [grp\<lparr>students := None\<rparr>] @ gs')\<rparr>) =
       sumStudentsInGrade (g\<lparr>groups := Some (gs @ [grp\<lparr>students := Some []\<rparr>] @ gs')\<rparr>)
   \<and> sumAllStudents (r\<lparr>grades := Some (grs @ [g\<lparr>groups := None\<rparr>] @ grs')\<rparr>) =
       sumAllStudents (r\<lparr>grades := Some (grs @ [g\<lparr>groups := Some []\<rparr>] @ grs')\<rparr>)
   \<and> findGrade (r\<lparr>grades := None\<rparr>) gradeKey = None
   \<and> findGroup (g\<lparr>groups := None\<rparr>) groupId = None
   \<and> (findGrade r gradeKey = None) = (gradeKey \<notin> key ` set (or_empty (grades r)))
   \<and> (findGroup g groupId = None) = (groupId \<notin> group_id ` set (or_empty (groups g)))"
proof -
  have s: "sumStudentsInGrade G = (\<Sum>x\<leftarrow>or_empty (groups G). length (or_empty (students x)))" for G
    by (simp add: sumStudentsInGrade_def reduce_add)
  have a: "sumAllStudents R = (\<Sum>G\<leftarrow>or_empty (grades R). sumStudentsInGrade G)" for R
    by (simp add: sumAllStudents_def reduce_add)
  have 1: "sumStudentsInGrade (g\<lparr>groups := None\<rparr>) = 0"
    by (simp add: s or_empty_def)
  have 2: "sumAllStudents (r\<lparr>grades := None\<rparr>) = 0"
    by (simp add: a or_empty_def)
  have 3: "sumStudentsInGrade (g\<lparr>groups := Some (map (\<lambda>x. x\<lparr>students := None\<rparr>) gs)\<rparr>) = 0"
    using sum_missing_students [of gs] by (simp add: s or_empty_def)
  have 4: "sumStudentsInGrade (g\<lparr>groups := Some (gs @ [grp\<lparr>students := None\<rparr>] @ gs')\<rparr>) =
       sumStudentsInGrade (g\<lparr>groups := Some (gs @ [grp\<lparr>students := Some []\<rparr>] @ gs')\<rparr>)"
    by (simp add: s or_empty_def)
  have 5: "sumAllStudents (r\<lparr>grades := Some (grs @ [g\<lparr>groups := None\<rparr>] @ grs')\<rparr>) =
       sumAllStudents (r\<lparr>grades := Some (grs @ [g\<lparr>groups := Some []\<rparr>] @ grs')\<rparr>)"
    by (simp add: a s or_empty_def)
  have 6: "findGrade (r\<lparr>grades := None\<rparr>) gradeKey = None"
    by (simp add: findGrade_def or_empty_def)
  have 7: "findGroup (g\<lparr>groups := None\<rparr>) groupId = None"
    by (simp add: findGroup_def or_empty_def)
  have 8: "(findGrade r gradeKey = None) = (gradeKey \<notin> key ` set (or_empty (grades r)))"
    by (auto simp: findGrade_def find_first_None)
  have 9: "(findGroup g groupId = None) = (groupId \<notin> group_id ` set (or_empty (groups g)))"
    by (auto simp: findGroup_def find_first_None)
  show ?thesis
    using 1 2 3 4 5 6 7 8 9 by simp
qed

lemma click_listener_Leave:
  "(click_listener delay w ev = Leave dl u) =
     (dl = delay \<and> \<not> defaultPrevented ev \<and> button ev = 0
      \<and> \<not> metaKey ev \<and> \<not> ctrlKey ev \<and> \<not> shiftKey ev \<and> \<not> altKey ev
      \<and> (\<exists>a p. closest_anchor ev = Some a \<and> new_URL w (a_href a) = Some p
                 \<and> (a_target a = [] \<or> a_target a = ''_self'') \<and> \<not> a_download a
                 \<and> a_href a \<noteq> [] \<and> \<not> starts_with (a_href a) ''#''
                 \<and> origin p = location_origin w \<and> ends_with (pathname p) ''.html''
                 \<and> u = url_href p))"
  by (auto simp: click_listener_def split: option.splits)

lemma click_listener_pass:
  assumes "closest_anchor ev = Some a"
  shows "new_URL w (a_href a) = Some p \<Longrightarrow> origin p \<noteq> location_origin w \<Longrightarrow>
           click_listener delay w ev = PassThrough"
    and "a_target a \<noteq> [] \<Longrightarrow> a_target a \<noteq> ''_self'' \<Longrightarrow> click_listener delay w ev = PassThrough"
    and "a_download a \<Longrightarrow> click_listener delay w ev = PassThrough"
    and "starts_with (a_href a) ''#'' \<Longrightarrow> click_listener delay w ev = PassThrough"
  using assms by (simp_all add: click_listener_def)

text \<open>
  Claim C8.  The listener prevents the default action and navigates after its fixed
  delay (60 ms in the variant with a time to live, 120 ms in the other) exactly when
  the click has an anchor, is not yet prevented, is a primary-button click without
  modifier keys, the anchor has no target other than \<open>_self\<close> and no \<^verbatim>\<open>download\<close>
  attribute, its \<^verbatim>\<open>href\<close> is neither empty nor a fragment, and the address resolves
  to a page (\<^verbatim>\<open>.html\<close>) of the window's own origin; it then navigates to the resolved
  address.  A click on an external link, on an anchor with another target, on a
  download link or on a fragment-only link is passed through.
\<close>

theorem C8_fast_nav:
  "(installFastNav_ttl w ev = Leave dl u) =
     (dl = 60 \<and> \<not> defaultPrevented ev \<and> button ev = 0
      \<and> \<not> metaKey ev \<and> \<not> ctrlKey ev \<and> \<not> shiftKey ev \<and> \<not> altKey ev
      \<and> (\<exists>a p. closest_anchor ev = Some a \<and> new_URL w (a_href a) = Some p
                 \<and> (a_target a = [] \<or> a_target a = ''_self'') \<and> \<not> a_download a
                 \<and> a_href a \<noteq> [] \<and> \<not> starts_with (a_href a) ''#''
                 \<and> origin p = location_origin w \<and> ends_with (pathname p) ''.html''
                 \<and> u = url_href p))
   \<and> (installFastNav_fc w ev = Leave dl u) =
     (dl = 120 \<and> \<not> defaultPrevented ev \<and> button ev = 0
      \<and> \<not> metaKey ev \<and> \<not> ctrlKey ev \<and> \<not> shiftKey ev \<and> \<not> altKey ev
      \<and> (\<exists>a p. closest_anchor ev = Some a \<and> new_URL w (a_href a) = Some p
                 \<and> (a_target a = [] \<or> a_target a = ''_self'') \<and> \<not> a_download a
                 \<and> a_href a \<noteq> [] \<and> \<not> starts_with (a_href a) ''#''
                 \<and> origin p = location_origin w \<and> ends_with (pathname p) ''.html''
                 \<and> u = url_href p))
   \<and> (closest_anchor ev = Some a \<and> new_URL w (a_href a) = Some p
        \<and> origin p \<noteq> location_origin w \<longrightarrow>
        installFastNav_ttl w ev = PassThrough \<and> installFastNav_fc w ev = PassThrough)
   \<and> (closest_anchor ev = Some a \<and> a_target a \<noteq> [] \<and> a_target a \<noteq> ''_self'' \<longrightarrow>
        installFastNav_ttl w ev = PassThrough \<and> installFastNav_fc w ev = PassThrough)
   \<and> (closest_anchor ev = Some a \<and> a_download a \<longrightarrow>
        installFastNav_ttl w ev = PassThrough \<and> installFastNav_fc w ev = PassThrough)
   \<and> (closest_anchor ev = Some a \<and> starts_with (a_href a) ''#'' \<longrightarrow>
        installFastNav_ttl w ev = PassThrough \<and> installFastNav_fc w ev = PassThrough)"
  unfolding installFastNav_ttl_def installFastNav_fc_def click_listener_Leave
  using click_listener_pass [of ev a] by blast

theorem C8_fast_nav_witness:
  "installFastNav_ttl example_window (plain_click ''grade.html?g=z'') =
     Leave 60 ''https://school.example/grade.html?g=z''
   \<and> installFastNav_fc example_window (plain_click ''grade.html?g=z'') =
     Leave 120 ''https://school.example/grade.html?g=z''
   \<and> installFastNav_ttl example_window (plain_click ''https://other.example/a.html'') = PassThrough
   \<and> installFastNav_ttl example_window
        ((plain_click ''grade.html?g=z'')\<lparr>closest_anchor :=
           Some \<lparr>a_target = ''_blank'', a_download = False, a_href = ''grade.html?g=z''\<rparr>\<rparr>) =
       PassThrough
   \<and> installFastNav_ttl example_window
        ((plain_click ''grade.html?g=z'')\<lparr>closest_anchor :=
           Some \<lparr>a_target = [], a_download = True, a_href = ''grade.html?g=z''\<rparr>\<rparr>) =
       PassThrough
   \<and> installFastNav_fc example_window (plain_click ''#top'') = PassThrough"
proof -
  let ?w = example_window
  let ?site = "\<lparr>origin = ''https://school.example'', pathname = ''/grade.html'',
                url_href = ''https://school.example/grade.html?g=z''\<rparr>"
  let ?other = "\<lparr>origin = ''https://other.example'', pathname = ''/a.html'',
                 url_href = ''https://other.example/a.html''\<rparr>"
  have s: "new_URL ?w ''grade.html?g=z'' = Some ?site"
    and o: "new_URL ?w ''https://other.example/a.html'' = Some ?other"
    and l: "location_origin ?w = ''https://school.example''"
    by (simp_all add: example_window_def)
  have e: "ends_with ''/grade.html'' ''.html''" "\<not> starts_with ''grade.html?g=z'' ''#''"
    "starts_with ''#top'' ''#''"
    by (simp_all add: ends_with_def starts_with_def)
  note hit = C8_fast_nav [where w = ?w and ev = "plain_click ''grade.html?g=z''"
      and u = "''https://school.example/grade.html?g=z''"]
  note ext = C8_fast_nav [where w = ?w and ev = "plain_click ''https://other.example/a.html''"
      and a = "\<lparr>a_target = [], a_download = False, a_href = ''https://other.example/a.html''\<rparr>"
      and p = ?other]
  note tgt = C8_fast_nav [where w = ?w
      and ev = "(plain_click ''grade.html?g=z'')\<lparr>closest_anchor :=
           Some \<lparr>a_target = ''_blank'', a_download = False, a_href = ''grade.html?g=z''\<rparr>\<rparr>"
      and a = "\<lparr>a_target = ''_blank'', a_download = False, a_href = ''grade.html?g=z''\<rparr>"]
  note dwn = C8_fast_nav [where w = ?w
      and ev = "(plain_click ''grade.html?g=z'')\<lparr>closest_anchor :=
           Some \<lparr>a_target = [], a_download = True, a_href = ''grade.html?g=z''\<rparr>\<rparr>"
      and a = "\<lparr>a_target = [], a_download = True, a_href = ''grade.html?g=z''\<rparr>"]
  note frag = C8_fast_nav [where w = ?w and ev = "plain_click ''#top''"
      and a = "\<lparr>a_target = [], a_download = False, a_href = ''#top''\<rparr>"]
  have 1: "installFastNav_ttl ?w (plain_click ''grade.html?g=z'') =
             Leave 60 ''https://school.example/grade.html?g=z''"
    using hit [where dl = 60] s l e by (simp add: plain_click_def)
  have 2: "installFastNav_fc ?w (plain_click ''grade.html?g=z'') =
             Leave 120 ''https://school.example/grade.html?g=z''"
    using hit [where dl = 120] s l e by (simp add: plain_click_def)
  have 3: "installFastNav_ttl ?w (plain_click ''https://other.example/a.html'') = PassThrough"
    using ext o l by (simp add: plain_click_def)
  have 4: "installFastNav_ttl example_window
        ((plain_click ''grade.html?g=z'')\<lparr>closest_anchor :=
           Some \<lparr>a_target = ''_blank'', a_download = False, a_href = ''grade.html?g=z''\<rparr>\<rparr>) =
       PassThrough"
    using tgt by simp
  have 5: "installFastNav_ttl example_window
        ((plain_click ''grade.html?g=z'')\<lparr>closest_anchor :=
           Some \<lparr>a_target = [], a_download = True, a_href = ''grade.html?g=z''\<rparr>\<rparr>) =
       PassThrough"
    using dwn by simp
  have 6: "installFastNav_fc example_window (plain_click ''#top'') = PassThrough"
    using frag e by (simp add: plain_click_def)
  show ?thesis
    using 1 2 3 4 5 6 by simp
qed

lemma get_prop_truthy: "get_prop v k = Some x \<Longrightarrow> truthy v"
  by (cases v) simp_all

lemma ttl_requests:
  assumes "fresh_entry now (readSessionJSON st SESSION_CACHE_KEY) = None"
  shows "map url (snd (snd (loadAll_ttl now net st))) =
           [CONFIG_URL @ ''?v='' @ string_of_int (fst (getSessionBust now st)),
            DATA_URL @ ''?v='' @ string_of_int (fst (getSessionBust now st))]"
  using assms
  by (simp add: loadAll_ttl_def Let_def split: prod.splits sum.splits)

lemma fc_requests:
  assumes "cached_pair st = None"
  shows "map url (snd (snd (loadAll_fc net st))) = [CONFIG_URL, DATA_URL]"
  using assms
  by (simp add: loadAll_fc_def Let_def split: prod.splits sum.splits)

lemma ttl_hit:
  assumes "accessible st" and "items st SESSION_CACHE_KEY = Some (Parsed entry)"
    and "get_prop entry ''ts'' = Some (JNum ts)"
    and "get_prop entry ''cfg'' = Some cfg" and "get_prop entry ''data'' = Some data"
    and "truthy cfg" and "truthy data" and "now - ts \<le> 90 * 1000"
  shows "loadAll_ttl now net st = (Inr (cfg, data), st, [])"
proof -
  have r: "readSessionJSON st SESSION_CACHE_KEY = entry"
    using assms(1,2) by (simp add: readSessionJSON_def getItem_def)
  have "fresh_entry now entry = Some (cfg, data)"
    using assms(3-8) get_prop_truthy [OF assms(3)]
    by (simp add: fresh_entry_def SESSION_CACHE_TTL_MS_def)
  then show ?thesis
    by (simp add: loadAll_ttl_def r)
qed

lemma ttl_expired:
  assumes "accessible st" and "items st SESSION_CACHE_KEY = Some (Parsed entry)"
    and "get_prop entry ''ts'' = Some (JNum ts)" and "90 * 1000 < now - ts"
  shows "fresh_entry now (readSessionJSON st SESSION_CACHE_KEY) = None"
proof -
  have r: "readSessionJSON st SESSION_CACHE_KEY = entry"
    using assms(1,2) by (simp add: readSessionJSON_def getItem_def)
  show ?thesis
    using assms(3,4)
    by (simp add: r fresh_entry_def SESSION_CACHE_TTL_MS_def split: option.splits)
qed

lemma ttl_absent:
  assumes "items st SESSION_CACHE_KEY = None"
  shows "fresh_entry now (readSessionJSON st SESSION_CACHE_KEY) = None"
  using assms by (simp add: readSessionJSON_def getItem_def fresh_entry_def)

lemma fc_hit:
  assumes "accessible st" and "items st CACHE_CFG_KEY = Some (Parsed cfg)"
    and "items st CACHE_DATA_KEY = Some (Parsed data)"
  shows "loadAll_fc net st = (Inr (cfg, data), st, [])"
  using assms by (simp add: loadAll_fc_def cached_pair_def getItem_def)

lemma fc_absent:
  assumes "items st CACHE_CFG_KEY = None \<or> items st CACHE_DATA_KEY = None"
  shows "cached_pair st = None"
  using assms by (auto simp: cached_pair_def getItem_def split: sum.splits)

text \<open>
  Claim C6.  In the variant with a time to live, when the storage holds an entry under
  the cache key with a numeric \<open>ts\<close> not more than 90 seconds before the current time
  and both documents, the load returns that pair, leaves the storage as it is and
  issues no request; when the entry is older than 90 seconds, or when there is no
  entry, the load requests both documents.  In the variant with one entry per document,
  when both entries are there, the load returns their pair without a request, and when
  one is missing it requests both documents.
\<close>

theorem C6_cache_or_network:
  "(accessible st \<and> items st SESSION_CACHE_KEY = Some (Parsed entry)
      \<and> get_prop entry ''ts'' = Some (JNum ts)
      \<and> get_prop entry ''cfg'' = Some cfg \<and> get_prop entry ''data'' = Some data
      \<and> truthy cfg \<and> truthy data \<and> now - ts \<le> 90 * 1000 \<longrightarrow>
      loadAll_ttl now net st = (Inr (cfg, data), st, []))
   \<and> (items st SESSION_CACHE_KEY = None
        \<or> accessible st \<and> items st SESSION_CACHE_KEY = Some (Parsed entry)
          \<and> get_prop entry ''ts'' = Some (JNum ts) \<and> 90 * 1000 < now - ts \<longrightarrow>
      map url (snd (snd (loadAll_ttl now net st))) =
        [CONFIG_URL @ ''?v='' @ string_of_int (fst (getSessionBust now st)),
         DATA_URL @ ''?v='' @ string_of_int (fst (getSessionBust now st))])
   \<and> (accessible st \<and> items st CACHE_CFG_KEY = Some (Parsed cfg)
        \<and> items st CACHE_DATA_KEY = Some (Parsed data) \<longrightarrow>
      loadAll_fc net st = (Inr (cfg, data), st, []))
   \<and> (items st CACHE_CFG_KEY = None \<or> items st CACHE_DATA_KEY = None \<longrightarrow>
      map url (snd (snd (loadAll_fc net st))) = [CONFIG_URL, DATA_URL])"
proof (intro conjI impI)
  assume "accessible st \<and> items st SESSION_CACHE_KEY = Some (Parsed entry)
      \<and> get_prop entry ''ts'' = Some (JNum ts)
      \<and> get_prop entry ''cfg'' = Some cfg \<and> get_prop entry ''data'' = Some data
      \<and> truthy cfg \<and> truthy data \<and> now - ts \<le> 90 * 1000"
  then show "loadAll_ttl now net st = (Inr (cfg, data), st, [])"
    using ttl_hit [of st entry ts cfg data now net] by simp
next
  assume "items st SESSION_CACHE_KEY = None
        \<or> accessible st \<and> items st SESSION_CACHE_KEY = Some (Parsed entry)
          \<and> get_prop entry ''ts'' = Some (JNum ts) \<and> 90 * 1000 < now - ts"
  then have "fresh_entry now (readSessionJSON st SESSION_CACHE_KEY) = None"
    using ttl_absent ttl_expired by blast
  then show "map url (snd (snd (loadAll_ttl now net st))) =
        [CONFIG_URL @ ''?v='' @ string_of_int (fst (getSessionBust now st)),
         DATA_URL @ ''?v='' @ string_of_int (fst (getSessionBust now st))]"
    by (rule ttl_requests)
next
  assume "accessible st \<and> items st CACHE_CFG_KEY = Some (Parsed cfg)
        \<and> items st CACHE_DATA_KEY = Some (Parsed data)"
  then show "loadAll_fc net st = (Inr (cfg, data), st, [])"
    using fc_hit [of st cfg data net] by simp
next
  assume "items st CACHE_CFG_KEY = None \<or> items st CACHE_DATA_KEY = None"
  then show "map url (snd (snd (loadAll_fc net st))) = [CONFIG_URL, DATA_URL]"
    by (intro fc_requests fc_absent)
qed

theorem C6_cache_or_network_witness:
  "loadAll_ttl 50000 good_net (ttl_storage 1000) =
     (Inr (example_cfg_json, example_data_json), ttl_storage 1000, [])
   \<and> map url (snd (snd (loadAll_ttl 200000 good_net (ttl_storage 1000)))) =
       [''data/config.json?v=200000'', ''data/data.json?v=200000'']
   \<and> map url (snd (snd (loadAll_ttl 200000 good_net empty_storage))) =
       [''data/config.json?v=200000'', ''data/data.json?v=200000'']
   \<and> loadAll_fc good_net fc_storage =
       (Inr (example_cfg_json, example_data_json), fc_storage, [])
   \<and> map url (snd (snd (loadAll_fc good_net empty_storage))) =
       [''data/config.json'', ''data/data.json'']"
proof -
  let ?entry = "JObj [(''ts'', JNum 1000), (''cfg'', example_cfg_json),
                      (''data'', example_data_json)]"
  have keys: "SESSION_BUST_KEY \<noteq> SESSION_CACHE_KEY" "CACHE_DATA_KEY \<noteq> CACHE_CFG_KEY"
    by (simp_all add: SESSION_BUST_KEY_def SESSION_CACHE_KEY_def CACHE_DATA_KEY_def
          CACHE_CFG_KEY_def)
  have st: "accessible (ttl_storage 1000)"
    "items (ttl_storage 1000) SESSION_CACHE_KEY = Some (Parsed ?entry)"
    "items (ttl_storage 1000) SESSION_BUST_KEY = None"
    "accessible empty_storage" "items empty_storage k = None"
    "accessible fc_storage" "items fc_storage CACHE_CFG_KEY = Some (Parsed example_cfg_json)"
    "items fc_storage CACHE_DATA_KEY = Some (Parsed example_data_json)" for k
    using keys by (simp_all add: ttl_storage_def empty_storage_def fc_storage_def)
  have docs: "truthy example_cfg_json" "truthy example_data_json"
    by (simp_all add: example_cfg_json_def example_data_json_def)
  have bust: "fst (getSessionBust 200000 (ttl_storage 1000)) = 200000"
    "fst (getSessionBust 200000 empty_storage) = 200000"
    by (simp_all add: getSessionBust_def Let_def readSessionJSON_def getItem_def st)
  have n: "string_of_int 200000 = ''200000''"
    by (simp add: string_of_int_def string_of_nat.simps digit_def)
  note hit = C6_cache_or_network [where st = "ttl_storage 1000" and entry = ?entry
      and ts = 1000 and cfg = example_cfg_json and data = example_data_json and now = 50000
      and net = good_net]
  note old = C6_cache_or_network [where st = "ttl_storage 1000" and entry = ?entry
      and ts = 1000 and cfg = example_cfg_json and data = example_data_json and now = 200000
      and net = good_net]
  note none = C6_cache_or_network [where st = empty_storage and entry = ?entry
      and ts = 1000 and cfg = example_cfg_json and data = example_data_json and now = 200000
      and net = good_net]
  note fc = C6_cache_or_network [where st = fc_storage and entry = ?entry
      and ts = 1000 and cfg = example_cfg_json and data = example_data_json and now = 50000
      and net = good_net]
  have 1: "loadAll_ttl 50000 good_net (ttl_storage 1000) =
     (Inr (example_cfg_json, example_data_json), ttl_storage 1000, [])"
    using hit st docs by simp
  have 2: "map url (snd (snd (loadAll_ttl 200000 good_net (ttl_storage 1000)))) =
       [''data/config.json?v=200000'', ''data/data.json?v=200000'']"
    using old st by (simp add: bust n CONFIG_URL_def DATA_URL_def)
  have 3: "map url (snd (snd (loadAll_ttl 200000 good_net empty_storage))) =
       [''data/config.json?v=200000'', ''data/data.json?v=200000'']"
    using none st by (simp add: bust n CONFIG_URL_def DATA_URL_def)
  have 4: "loadAll_fc good_net fc_storage =
       (Inr (example_cfg_json, example_data_json), fc_storage, [])"
    using fc st by simp
  have 5: "map url (snd (snd (loadAll_fc good_net empty_storage))) =
       [''data/config.json'', ''data/data.json'']"
    using none st by (simp add: CONFIG_URL_def DATA_URL_def)
  show ?thesis
    using 1 2 3 4 5 by simp
qed

lemma loadAll_results:
  assumes "net CONFIG_URL = Responds t1 r1" and "net DATA_URL = Responds t2 r2"
  shows "fst (loadAll net) =
           (if \<not> ok r1 \<or> \<not> ok r2 then Inl (Error ''fetch failed'')
            else case body r1 of
                   None \<Rightarrow> Inl SyntaxError
                 | Some cfg \<Rightarrow> (case body r2 of None \<Rightarrow> Inl SyntaxError
                                | Some data \<Rightarrow> Inr (cfg, data)))"
  using assms
  by (simp add: loadAll_def Let_def fetch_def promise_all_def res_json_def split: option.splits)

lemma loadAll_fc_results:
  assumes "cached_pair st = None"
    and "net CONFIG_URL = Responds t1 r1" and "net DATA_URL = Responds t2 r2"
  shows "fst (loadAll_fc net st) =
           (if \<not> ok r1 \<or> \<not> ok r2 then Inl (Error ''fetch failed'')
            else case body r1 of
                   None \<Rightarrow> Inl SyntaxError
                 | Some cfg \<Rightarrow> (case body r2 of None \<Rightarrow> Inl SyntaxError
                                | Some data \<Rightarrow> Inr (cfg, data)))"
  using assms
  by (simp add: loadAll_fc_def Let_def fetch_def promise_all_def res_json_def
        split: option.splits)

lemma loadAll_ttl_results:
  assumes "fresh_entry now (readSessionJSON st SESSION_CACHE_KEY) = None"
    and "net (CONFIG_URL @ ''?v='' @ string_of_int (fst (getSessionBust now st))) = Responds t1 r1"
    and "net (DATA_URL @ ''?v='' @ string_of_int (fst (getSessionBust now st))) = Responds t2 r2"
    and "t1 < FETCH_TIMEOUT_MS" and "t2 < FETCH_TIMEOUT_MS"
  shows "fst (loadAll_ttl now net st) =
           (if \<not> ok r1 then
              Inl (Error (''cfg fetch failed ('' @ string_of_nat (status r1) @ '')''))
            else if \<not> ok r2 then
              Inl (Error (''data fetch failed ('' @ string_of_nat (status r2) @ '')''))
            else case body r1 of
                   None \<Rightarrow> Inl (Error ''cfg json parse failed'')
                 | Some cfg \<Rightarrow> (case body r2 of None \<Rightarrow> Inl (Error ''data json parse failed'')
                                | Some data \<Rightarrow> Inr (cfg, data)))"
  using assms
  by (simp add: loadAll_ttl_def Let_def case_prod_beta fetchWithTimeout_def promise_all_def
        res_json_def split: option.splits)

text \<open>
  Claim C7.  When both requests are answered and a response is not successful, the load
  fails with the error \<open>fetch failed\<close> (in the variant with a time to live: with
  \<open>cfg fetch failed\<close> or \<open>data fetch failed\<close> and the status); when both are successful
  and a body does not parse, the load fails with the syntax error of \<^verbatim>\<open>json()\<close> (in the
  variant with a time to live: with \<open>cfg json parse failed\<close> or
  \<open>data json parse failed\<close>), which is not a fetch failure.  A pair is returned only
  when both responses are successful and both bodies parse.  In the caching variants
  this is the path of a load that found no usable cache entry, and in the variant with
  a time to live the responses have come within the timeout.
\<close>

theorem C7_fetch_and_parse_failures:
  "(net CONFIG_URL = Responds t1 r1 \<and> net DATA_URL = Responds t2 r2 \<longrightarrow>
      (\<not> ok r1 \<or> \<not> ok r2 \<longrightarrow> fst (loadAll net) = Inl (Error ''fetch failed''))
      \<and> (ok r1 \<and> ok r2 \<and> (body r1 = None \<or> body r2 = None) \<longrightarrow>
           fst (loadAll net) = Inl SyntaxError)
      \<and> (fst (loadAll net) = Inr (cfg, data) \<longrightarrow>
           ok r1 \<and> ok r2 \<and> body r1 = Some cfg \<and> body r2 = Some data)
      \<and> (cached_pair st = None \<longrightarrow>
           (\<not> ok r1 \<or> \<not> ok r2 \<longrightarrow> fst (loadAll_fc net st) = Inl (Error ''fetch failed''))
           \<and> (ok r1 \<and> ok r2 \<and> (body r1 = None \<or> body r2 = None) \<longrightarrow>
                fst (loadAll_fc net st) = Inl SyntaxError)
           \<and> (fst (loadAll_fc net st) = Inr (cfg, data) \<longrightarrow>
                ok r1 \<and> ok r2 \<and> body r1 = Some cfg \<and> body r2 = Some data)))
   \<and> (fresh_entry now (readSessionJSON st SESSION_CACHE_KEY) = None
        \<and> net (CONFIG_URL @ ''?v='' @ string_of_int (fst (getSessionBust now st))) =
            Responds t1 r1
        \<and> net (DATA_URL @ ''?v='' @ string_of_int (fst (getSessionBust now st))) =
            Responds t2 r2
        \<and> t1 < FETCH_TIMEOUT_MS \<and> t2 < FETCH_TIMEOUT_MS \<longrightarrow>
      (\<not> ok r1 \<longrightarrow>
         fst (loadAll_ttl now net st) =
           Inl (Error (''cfg fetch failed ('' @ string_of_nat (status r1) @ '')'')))
      \<and> (ok r1 \<and> \<not> ok r2 \<longrightarrow>
         fst (loadAll_ttl now net st) =
           Inl (Error (''data fetch failed ('' @ string_of_nat (status r2) @ '')'')))
      \<and> (ok r1 \<and> ok r2 \<and> body r1 = None \<longrightarrow>
         fst (loadAll_ttl now net st) = Inl (Error ''cfg json parse failed''))
      \<and> (ok r1 \<and> ok r2 \<and> body r1 \<noteq> None \<and> body r2 = None \<longrightarrow>
         fst (loadAll_ttl now net st) = Inl (Error ''data json parse failed''))
      \<and> (fst (loadAll_ttl now net st) = Inr (cfg, data) \<longrightarrow>
           ok r1 \<and> ok r2 \<and> body r1 = Some cfg \<and> body r2 = Some data))
   \<and> SyntaxError \<noteq> Error ''fetch failed''
   \<and> Error ''cfg json parse failed'' \<noteq> Error (''cfg fetch failed ('' @ s @ '')'')
   \<and> Error ''cfg json parse failed'' \<noteq> Error (''data fetch failed ('' @ s @ '')'')
   \<and> Error ''data json parse failed'' \<noteq> Error (''cfg fetch failed ('' @ s @ '')'')
   \<and> Error ''data json parse failed'' \<noteq> Error (''data fetch failed ('' @ s @ '')'')"
proof -
  have a: "(\<not> ok r1 \<or> \<not> ok r2 \<longrightarrow> fst (loadAll net) = Inl (Error ''fetch failed''))
      \<and> (ok r1 \<and> ok r2 \<and> (body r1 = None \<or> body r2 = None) \<longrightarrow>
           fst (loadAll net) = Inl SyntaxError)
      \<and> (fst (loadAll net) = Inr (cfg, data) \<longrightarrow>
           ok r1 \<and> ok r2 \<and> body r1 = Some cfg \<and> body r2 = Some data)"
    if "net CONFIG_URL = Responds t1 r1" and "net DATA_URL = Responds t2 r2"
    unfolding loadAll_results [OF that]
    by (auto split: option.splits)
  have b: "(\<not> ok r1 \<or> \<not> ok r2 \<longrightarrow> fst (loadAll_fc net st) = Inl (Error ''fetch failed''))
           \<and> (ok r1 \<and> ok r2 \<and> (body r1 = None \<or> body r2 = None) \<longrightarrow>
                fst (loadAll_fc net st) = Inl SyntaxError)
           \<and> (fst (loadAll_fc net st) = Inr (cfg, data) \<longrightarrow>
                ok r1 \<and> ok r2 \<and> body r1 = Some cfg \<and> body r2 = Some data)"
    if "cached_pair st = None"
      and "net CONFIG_URL = Responds t1 r1" and "net DATA_URL = Responds t2 r2"
    unfolding loadAll_fc_results [OF that]
    by (auto split: option.splits)
  have c: "(\<not> ok r1 \<longrightarrow>
         fst (loadAll_ttl now net st) =
           Inl (Error (''cfg fetch failed ('' @ string_of_nat (status r1) @ '')'')))
      \<and> (ok r1 \<and> \<not> ok r2 \<longrightarrow>
         fst (loadAll_ttl now net st) =
           Inl (Error (''data fetch failed ('' @ string_of_nat (status r2) @ '')'')))
      \<and> (ok r1 \<and> ok r2 \<and> body r1 = None \<longrightarrow>
         fst (loadAll_ttl now net st) = Inl (Error ''cfg json parse failed''))
      \<and> (ok r1 \<and> ok r2 \<and> body r1 \<noteq> None \<and> body r2 = None \<longrightarrow>
         fst (loadAll_ttl now net st) = Inl (Error ''data json parse failed''))
      \<and> (fst (loadAll_ttl now net st) = Inr (cfg, data) \<longrightarrow>
           ok r1 \<and> ok r2 \<and> body r1 = Some cfg \<and> body r2 = Some data)"
    if "fresh_entry now (readSessionJSON st SESSION_CACHE_KEY) = None"
      and "net (CONFIG_URL @ ''?v='' @ string_of_int (fst (getSessionBust now st))) =
            Responds t1 r1"
      and "net (DATA_URL @ ''?v='' @ string_of_int (fst (getSessionBust now st))) =
            Responds t2 r2"
      and "t1 < FETCH_TIMEOUT_MS" and "t2 < FETCH_TIMEOUT_MS"
    unfolding loadAll_ttl_results [OF that]
    by (auto split: option.splits)
  have d: "SyntaxError \<noteq> Error ''fetch failed''
   \<and> Error ''cfg json parse failed'' \<noteq> Error (''cfg fetch failed ('' @ s @ '')'')
   \<and> Error ''cfg json parse failed'' \<noteq> Error (''data fetch failed ('' @ s @ '')'')
   \<and> Error ''data json parse failed'' \<noteq> Error (''cfg fetch failed ('' @ s @ '')'')
   \<and> Error ''data json parse failed'' \<noteq> Error (''data fetch failed ('' @ s @ '')'')"
    by simp
  show ?thesis
    using a b c d by blast
qed

theorem C7_fetch_and_parse_failures_witness:
  "fst (loadAll (example_net response_404 (response_ok example_data_json))) =
     Inl (Error ''fetch failed'')
   \<and> fst (loadAll (example_net (response_ok example_cfg_json) response_garbled)) =
     Inl SyntaxError
   \<and> fst (loadAll_fc (example_net (response_ok example_cfg_json) response_404) empty_storage) =
     Inl (Error ''fetch failed'')
   \<and> fst (loadAll_fc (example_net response_garbled (response_ok example_data_json))
           empty_storage) =
     Inl SyntaxError
   \<and> fst (loadAll_ttl 200000 (example_net response_404 (response_ok example_data_json))
           empty_storage) =
     Inl (Error ''cfg fetch failed (404)'')
   \<and> fst (loadAll_ttl 200000 (example_net (response_ok example_cfg_json) response_404)
           empty_storage) =
     Inl (Error ''data fetch failed (404)'')
   \<and> fst (loadAll_ttl 200000 (example_net response_garbled (response_ok example_data_json))
           empty_storage) =
     Inl (Error ''cfg json parse failed'')
   \<and> fst (loadAll_ttl 200000 (example_net (response_ok example_cfg_json) response_garbled)
           empty_storage) =
     Inl (Error ''data json parse failed'')"
proof -
  let ?good1 = "response_ok example_cfg_json"
  let ?good2 = "response_ok example_data_json"
  let ?b = "''?v='' @ string_of_int (fst (getSessionBust 200000 empty_storage))"
  have net: "example_net r1 r2 CONFIG_URL = Responds 20 r1"
    "example_net r1 r2 DATA_URL = Responds 20 r2"
    "example_net r1 r2 (CONFIG_URL @ ?b) = Responds 20 r1"
    "example_net r1 r2 (DATA_URL @ ?b) = Responds 20 r2" for r1 r2
    by (simp_all add: example_net_def starts_with_def CONFIG_URL_def DATA_URL_def)
  have t: "(20::nat) < FETCH_TIMEOUT_MS"
    by (simp add: FETCH_TIMEOUT_MS_def)
  have miss: "cached_pair empty_storage = None"
    "fresh_entry 200000 (readSessionJSON empty_storage SESSION_CACHE_KEY) = None"
    by (simp_all add: cached_pair_def getItem_def empty_storage_def readSessionJSON_def
          fresh_entry_def)
  have r: "\<not> ok response_404" "status response_404 = 404" "ok response_garbled"
    "body response_garbled = None" "ok (response_ok v)" "body (response_ok v) = Some v" for v
    by (simp_all add: response_404_def response_garbled_def response_ok_def)
  have n: "string_of_nat 404 = ''404''"
    by (simp add: string_of_nat.simps digit_def)
  note inst = C7_fetch_and_parse_failures [where now = 200000 and st = empty_storage
      and ?t1.0 = 20 and ?t2.0 = 20]
  have 1: "fst (loadAll (example_net response_404 ?good2)) = Inl (Error ''fetch failed'')"
    using inst [where net = "example_net response_404 ?good2" and ?r1.0 = response_404
        and ?r2.0 = ?good2] net r
    by simp
  have 2: "fst (loadAll (example_net ?good1 response_garbled)) = Inl SyntaxError"
    using inst [where net = "example_net ?good1 response_garbled" and ?r1.0 = ?good1
        and ?r2.0 = response_garbled] net r
    by simp
  have 3: "fst (loadAll_fc (example_net ?good1 response_404) empty_storage) =
             Inl (Error ''fetch failed'')"
    using inst [where net = "example_net ?good1 response_404" and ?r1.0 = ?good1
        and ?r2.0 = response_404] net r miss
    by simp
  have 4: "fst (loadAll_fc (example_net response_garbled ?good2) empty_storage) =
             Inl SyntaxError"
    using inst [where net = "example_net response_garbled ?good2" and ?r1.0 = response_garbled
        and ?r2.0 = ?good2] net r miss
    by simp
  have 5: "fst (loadAll_ttl 200000 (example_net response_404 ?good2) empty_storage) =
             Inl (Error ''cfg fetch failed (404)'')"
    using inst [where net = "example_net response_404 ?good2" and ?r1.0 = response_404
        and ?r2.0 = ?good2] net r miss t
    by (simp add: n)
  have 6: "fst (loadAll_ttl 200000 (example_net ?good1 response_404) empty_storage) =
             Inl (Error ''data fetch failed (404)'')"
    using inst [where net = "example_net ?good1 response_404" and ?r1.0 = ?good1
        and ?r2.0 = response_404] net r miss t
    by (simp add: n)
  have 7: "fst (loadAll_ttl 200000 (example_net response_garbled ?good2) empty_storage) =
             Inl (Error ''cfg json parse failed'')"
    using inst [where net = "example_net response_garbled ?good2" and ?r1.0 = response_garbled
        and ?r2.0 = ?good2] net r miss t
    by simp
  have 8: "fst (loadAll_ttl 200000 (example_net ?good1 response_garbled) empty_storage) =
             Inl (Error ''data json parse failed'')"
    using inst [where net = "example_net ?good1 response_garbled" and ?r1.0 = ?good1
        and ?r2.0 = response_garbled] net r miss t
    by simp
  show ?thesis
    using 1 2 3 4 5 6 7 8 by simp
qed

end
